theory Spec2Isabelle
  imports Complex_Main "HOL-Library.Sublist"
begin

section \<open>Values handed to the icon renderer\<close>

text \<open>
  The script \<^verbatim>\<open>gen_axes_icon.py\<close> draws with Python floats. They are modelled as
  \<^typ>\<open>real\<close>: the comparisons and the single addition of the geometry rules are then
  exact, as they are in Python on the literals the script uses (0, 1 and their sums).
\<close>

type_synonym vec3 = "real \<times> real \<times> real"

text \<open>
  The exceptions the renderer can let escape: \<open>BadNumber\<close> is the TypeError or ValueError
  of \<^verbatim>\<open>float(v)\<close>, \<open>IndexError\<close> that of \<^verbatim>\<open>v[i]\<close>, \<open>WriteError p\<close> the OSError of
  \<^verbatim>\<open>savefig\<close> on path \<open>p\<close>.
\<close>

datatype error = BadNumber | IndexError | WriteError string

text \<open>A coordinate as the caller passes it: a number, or an object \<^verbatim>\<open>float()\<close> rejects.\<close>

datatype coord = Num real | NonNum

text \<open>
  The argument \<^verbatim>\<open>normal_axis\<close>: \<^verbatim>\<open>None\<close>, a string, or any other object, of which only
  its \<^verbatim>\<open>str()\<close> rendering is used.
\<close>

datatype pyarg = PyNone | PyStr string | PyObj string

text \<open>The argument \<^verbatim>\<open>guide_to\<close>: a sequence of coordinates, or an object that cannot be unpacked.\<close>

datatype guide_arg = GSeq "coord list" | GNonIter

subsection \<open>String helpers\<close>

text \<open>\<^verbatim>\<open>str.lower\<close> on ASCII text.\<close>

definition lower_char :: "char \<Rightarrow> char" where
  "lower_char c =
     (let n = (of_char c :: nat) in if 65 \<le> n \<and> n \<le> 90 then char_of (n + 32) else c)"

definition lower :: "string \<Rightarrow> string" where
  "lower s = map lower_char s"

text \<open>
  \<^verbatim>\<open>str.replace(old, new)\<close>: every occurrence of \<open>old\<close>, left to right and without
  overlap; an empty \<open>old\<close> matches before every character and at the end.
\<close>

fun replace_str :: "string \<Rightarrow> string \<Rightarrow> string \<Rightarrow> string" where
  "replace_str old new [] = (if old = [] then new else [])"
| "replace_str old new (c # cs) =
     (if old = [] then new @ c # replace_str old new cs
      else if prefix old (c # cs) then new @ replace_str old new (drop (length old) (c # cs))
      else c # replace_str old new cs)"

subsection \<open>Axis opacity\<close>

text \<open>
  Lines 71 to 79 of \<^verbatim>\<open>create_3d_axis_icon\<close>: the opacities
  \<open>(alpha_x, alpha_y, alpha_z)\<close> of the three axes.
\<close>

definition axis_alphas :: "pyarg \<Rightarrow> real \<Rightarrow> real \<times> real \<times> real" where
  "axis_alphas normal_axis dim_alpha =
     (case normal_axis of
        PyNone \<Rightarrow> (1, 1, 1)
      | PyStr s \<Rightarrow>
          if lower s \<in> set [''all_dim'', ''dim_all'', ''none'']
          then (dim_alpha, dim_alpha, dim_alpha)
          else (let na = lower s in
                 (if na = ''x'' then 1 else dim_alpha,
                  if na = ''y'' then 1 else dim_alpha,
                  if na = ''z'' then 1 else dim_alpha))
      | PyObj s \<Rightarrow>
          (let na = lower s in
            (if na = ''x'' then 1 else dim_alpha,
             if na = ''y'' then 1 else dim_alpha,
             if na = ''z'' then 1 else dim_alpha)))"

section \<open>The scene of one icon\<close>

text \<open>
  What the renderer puts on the 3D axes, in drawing order:
  \<^item> \<open>Arrow3D tail head color alpha\<close>, an axis arrow;
  \<^item> \<open>Label pos text color alpha\<close>, an axis label;
  \<^item> \<open>Scatter pos color alpha\<close>, the origin marker;
  \<^item> \<open>Plot p q color alpha lw linestyle\<close>, a straight segment from \<open>p\<close> to \<open>q\<close>;
  \<^item> \<open>Poly3D verts facecolor alpha\<close>, a filled polygon without outline.
\<close>

datatype artist =
    Arrow3D vec3 vec3 string real
  | Label vec3 string string real
  | Scatter vec3 string real
  | Plot vec3 vec3 string real real string
  | Poly3D "vec3 list" string real

text \<open>
  The dictionary \<^verbatim>\<open>parallelogram\<close>; a field is \<open>None\<close> when the key is absent, and
  \<^verbatim>\<open>dict.get(key, default)\<close> then yields the default.
\<close>

record pgram =
  v1 :: "coord list option"
  v2 :: "coord list option"
  fill_color :: "string option"
  fill_alpha :: "real option"
  edge_color :: "string option"
  edge_style :: "string option"
  edge_lw :: "real option"
  edge_alpha :: "real option"
  skip_axis_edges :: "bool option"

definition dict_get :: "'a option \<Rightarrow> 'a \<Rightarrow> 'a" where
  "dict_get entry dflt = (case entry of None \<Rightarrow> dflt | Some v \<Rightarrow> v)"

text \<open>The keyword arguments of \<^verbatim>\<open>create_3d_axis_icon\<close> after the path and the format.\<close>

record icon_args =
  size_px :: "nat \<times> nat"
  dpi :: nat
  normal_axis :: pyarg
  dim_alpha :: real
  guide_to :: "guide_arg option"
  guide_color :: string
  guide_lw_main :: real
  guide_lw_aux :: real
  guide_style_main :: string
  guide_style_aux :: string
  guide_alpha_main :: real
  guide_alpha_aux :: real
  parallelogram :: "pgram option"
  extra_guides :: "(vec3 \<times> vec3) list option"

definition default_args :: icon_args where
  "default_args =
     \<lparr> size_px = (400, 400), dpi = 150, normal_axis = PyNone, dim_alpha = 35 / 100,
       guide_to = None, guide_color = ''#222222'',
       guide_lw_main = 3, guide_lw_aux = 22 / 10,
       guide_style_main = ''-'', guide_style_aux = ''--'',
       guide_alpha_main = 1, guide_alpha_aux = 6 / 10,
       parallelogram = None, extra_guides = None \<rparr>"

subsection \<open>Sequencing of fallible steps\<close>

definition and_then :: "error + 'a \<Rightarrow> ('a \<Rightarrow> error + 'b) \<Rightarrow> error + 'b" where
  "and_then m f = (case m of Inl e \<Rightarrow> Inl e | Inr x \<Rightarrow> f x)"

text \<open>\<^verbatim>\<open>float(v)\<close> and \<^verbatim>\<open>v[i]\<close> for a non-negative literal index.\<close>

definition to_float :: "coord \<Rightarrow> error + real" where
  "to_float c = (case c of Num r \<Rightarrow> Inr r | NonNum \<Rightarrow> Inl BadNumber)"

definition item :: "coord list \<Rightarrow> nat \<Rightarrow> error + coord" where
  "item v i = (if i < length v then Inr (v ! i) else Inl IndexError)"

text \<open>
  \<^verbatim>\<open>(float(v[0]), float(v[1]), float(v[2]))\<close>, evaluated left to right: each component is
  read and converted before the next one is read.
\<close>

definition float3 :: "coord list \<Rightarrow> error + vec3" where
  "float3 v =
     and_then (and_then (item v 0) to_float) (\<lambda>a.
     and_then (and_then (item v 1) to_float) (\<lambda>b.
     and_then (and_then (item v 2) to_float) (\<lambda>c. Inr (a, b, c))))"

subsection \<open>Axes, labels and origin marker\<close>

definition axis_length :: real where
  "axis_length = 115 / 100"

definition label_offset :: real where
  "label_offset = 108 / 100"

definition axis_artists :: "pyarg \<Rightarrow> real \<Rightarrow> artist list" where
  "axis_artists na da =
     (case axis_alphas na da of (alpha_x, alpha_y, alpha_z) \<Rightarrow>
       [Arrow3D (0, 0, 0) (axis_length, 0, 0) ''#FF0000'' alpha_x,
        Arrow3D (0, 0, 0) (0, axis_length, 0) ''#00FF00'' alpha_y,
        Arrow3D (0, 0, 0) (0, 0, axis_length) ''#0000FF'' alpha_z,
        Label (axis_length * label_offset, 0, 0) ''X'' ''#FF0000'' alpha_x,
        Label (0, axis_length * label_offset, 0) ''Y'' ''#00FF00'' alpha_y,
        Label (0, 0, axis_length * label_offset) ''Z'' ''#0000FF'' alpha_z,
        Scatter (0, 0, 0) ''black'' (8 / 10)])"

subsection \<open>Guide lines\<close>

text \<open>
  \<^verbatim>\<open>gx, gy, gz = guide_to\<close> inside \<^verbatim>\<open>try\<close>: anything that is not a sequence of exactly
  three elements raises there and is replaced by the origin.
\<close>

fun unpack_guide :: "guide_arg \<Rightarrow> coord \<times> coord \<times> coord" where
  "unpack_guide (GSeq [gx, gy, gz]) = (gx, gy, gz)"
| "unpack_guide _ = (Num 0, Num 0, Num 0)"

definition unit_point :: "nat \<Rightarrow> vec3" where
  "unit_point ax_idx =
     (if ax_idx = 0 then (1, 0, 0) else if ax_idx = 1 then (0, 1, 0) else (0, 0, 1))"

text \<open>
  Lines 122 to 136: the auto-derived auxiliary segments for a target, as pairs of start and
  end point.
\<close>

definition aux_segments :: "vec3 \<Rightarrow> (vec3 \<times> vec3) list" where
  "aux_segments target =
     (case target of (gx, gy, gz) \<Rightarrow>
       (let ones_axes = map fst (filter (\<lambda>(i, v). \<bar>v - 1\<bar> < 1 / 10 ^ 9)
                                        (enumerate 0 [gx, gy, gz]));
            zeros_axes = map fst (filter (\<lambda>(i, v). \<bar>v - 0\<bar> < 1 / 10 ^ 9)
                                         (enumerate 0 [gx, gy, gz]))
        in if length ones_axes = 2 \<and> length zeros_axes = 1
           then map (\<lambda>ax_idx. (unit_point ax_idx, target)) ones_axes
           else []))"

text \<open>
  Lines 109 to 143. The main line is plotted with the unpacked values before \<^verbatim>\<open>float()\<close>
  is applied to them; since a value \<^verbatim>\<open>float()\<close> rejects ends the call on the next
  statement, the conversion is done first here and the plotted scene is the same.
\<close>

definition guide_artists :: "icon_args \<Rightarrow> error + artist list" where
  "guide_artists a =
     (case guide_to a of
        None \<Rightarrow> Inr []
      | Some g \<Rightarrow>
         (case unpack_guide g of (gx, gy, gz) \<Rightarrow>
           and_then (to_float gx) (\<lambda>x.
           and_then (to_float gy) (\<lambda>y.
           and_then (to_float gz) (\<lambda>z.
             Inr (Plot (0, 0, 0) (x, y, z) (guide_color a) (guide_alpha_main a)
                       (guide_lw_main a) (guide_style_main a)
                  # map (\<lambda>(s, e). Plot s e (guide_color a) (guide_alpha_aux a)
                                          (guide_lw_aux a) (guide_style_aux a))
                        (aux_segments (x, y, z))
                  @ (case extra_guides a of
                       None \<Rightarrow> []
                     | Some gs \<Rightarrow>
                         map (\<lambda>(s, e). Plot s e (guide_color a) (guide_alpha_aux a)
                                               (guide_lw_aux a) (guide_style_aux a)) gs)))))))"

subsection \<open>Parallelogram\<close>

definition is_unit_axis :: "vec3 \<Rightarrow> bool" where
  "is_unit_axis pt \<longleftrightarrow> pt \<in> set [(1, 0, 0), (0, 1, 0), (0, 0, 1)]"

text \<open>The points \<^verbatim>\<open>O\<close> and \<^verbatim>\<open>B\<close> of lines 198 to 201; \<^verbatim>\<open>A\<close> and \<^verbatim>\<open>D\<close> are the converted edge vectors.\<close>

definition origin :: vec3 where
  "origin = (0, 0, 0)"

definition corner_B :: "vec3 \<Rightarrow> vec3 \<Rightarrow> vec3" where
  "corner_B A D =
     (case A of (a0, a1, a2) \<Rightarrow> case D of (d0, d1, d2) \<Rightarrow> (a0 + d0, a1 + d1, a2 + d2))"

text \<open>The single polygon of the list \<^verbatim>\<open>verts\<close>, line 203.\<close>

definition quad_verts :: "vec3 \<Rightarrow> vec3 \<Rightarrow> vec3 list" where
  "quad_verts A D = [origin, A, corner_B A D, D]"

text \<open>The list \<^verbatim>\<open>edges\<close> of lines 208 to 213.\<close>

definition quad_edges :: "vec3 \<Rightarrow> vec3 \<Rightarrow> (vec3 \<times> vec3) list" where
  "quad_edges A D =
     [(origin, A), (A, corner_B A D), (corner_B A D, D), (D, origin)]"

text \<open>The flag \<^verbatim>\<open>skip\<close> computed for one edge in the loop of lines 214 to 221.\<close>

definition edge_skip :: "bool \<Rightarrow> vec3 \<times> vec3 \<Rightarrow> bool" where
  "edge_skip flag e =
     (case e of (p, q) \<Rightarrow>
       (let skip0 = False;
            skip1 = (if flag \<and> p = origin \<and> is_unit_axis q then True else skip0);
            skip2 = (if flag \<and> q = origin \<and> is_unit_axis p then True else skip1)
        in skip2))"

definition stroked_edges :: "bool \<Rightarrow> vec3 \<Rightarrow> vec3 \<Rightarrow> (vec3 \<times> vec3) list" where
  "stroked_edges flag A D = filter (\<lambda>e. \<not> edge_skip flag e) (quad_edges A D)"

text \<open>Lines 184 to 224.\<close>

definition pgram_artists :: "icon_args \<Rightarrow> error + artist list" where
  "pgram_artists a =
     (case parallelogram a of
        None \<Rightarrow> Inr []
      | Some pg \<Rightarrow>
          and_then (float3 (dict_get (v1 pg) [Num 0, Num 0, Num 0])) (\<lambda>A.
          and_then (float3 (dict_get (v2 pg) [Num 0, Num 0, Num 0])) (\<lambda>D.
            Inr (Poly3D (quad_verts A D) (dict_get (fill_color pg) ''#fff6b3'')
                        (dict_get (fill_alpha pg) (35 / 100))
                 # map (\<lambda>(p, q). Plot p q (dict_get (edge_color pg) ''#b8860b'')
                                         (dict_get (edge_alpha pg) (6 / 10))
                                         (dict_get (edge_lw pg) (22 / 10))
                                         (dict_get (edge_style pg) ''--''))
                       (stroked_edges (dict_get (skip_axis_edges pg) True) A D)))))"

text \<open>The whole scene, in the order the statements of \<^verbatim>\<open>create_3d_axis_icon\<close> draw it.\<close>

definition scene_of :: "icon_args \<Rightarrow> error + artist list" where
  "scene_of a =
     and_then (guide_artists a) (\<lambda>gs.
     and_then (pgram_artists a) (\<lambda>ps.
       Inr (axis_artists (normal_axis a) (dim_alpha a) @ gs @ ps)))"

section \<open>Files\<close>

text \<open>
  A written file is either an icon (format, the \<^verbatim>\<open>dpi\<close> passed to \<^verbatim>\<open>savefig\<close> if any,
  scene) or a reference grid (format, figure background, cells). A cell of the grid has
  its row and column, its background colour and the image shown there, if any.
\<close>

datatype saved =
    IconFile string "nat option" "artist list"
  | GridFile string string "cell list"
and cell =
    Cell nat nat string "saved option"

text \<open>
  The working directory: the files present, the most recent write first. Which paths can
  be written is a parameter \<open>writable\<close> of every function that saves.
\<close>

type_synonym disk = "(string \<times> saved) list"

definition savefig :: "(string \<Rightarrow> bool) \<Rightarrow> string \<Rightarrow> saved \<Rightarrow> disk \<Rightarrow> error + disk" where
  "savefig writable path f d = (if writable path then Inr ((path, f) # d) else Inl (WriteError path))"

text \<open>\<^verbatim>\<open>mpimg.imread\<close>: \<open>None\<close> stands for the exception raised when the file cannot be loaded.\<close>

definition imread :: "disk \<Rightarrow> string \<Rightarrow> saved option" where
  "imread d path = map_of d path"

text \<open>Running statements in order; the first exception ends the run.\<close>

fun run_all :: "('s \<Rightarrow> error + 's) list \<Rightarrow> 's \<Rightarrow> error + 's" where
  "run_all [] s = Inr s"
| "run_all (step # steps) s = and_then (step s) (run_all steps)"

section \<open>The icon renderer and the batch helper\<close>

text \<open>\<^verbatim>\<open>create_3d_axis_icon\<close>: the scene is built, then saved (lines 231 to 237).\<close>

definition create_3d_axis_icon ::
  "(string \<Rightarrow> bool) \<Rightarrow> string \<Rightarrow> string \<Rightarrow> icon_args \<Rightarrow> disk \<Rightarrow> error + disk" where
  "create_3d_axis_icon writable output_path format a d =
     and_then (scene_of a) (\<lambda>scene.
       if lower format = ''svg''
       then savefig writable (replace_str ''.png'' ''.svg'' output_path)
              (IconFile ''svg'' None scene) d
       else savefig writable output_path (IconFile ''png'' (Some (dpi a)) scene) d)"

text \<open>\<^verbatim>\<open>_save_both\<close>.\<close>

definition save_both :: "(string \<Rightarrow> bool) \<Rightarrow> string \<Rightarrow> icon_args \<Rightarrow> disk \<Rightarrow> error + disk" where
  "save_both writable base_name kwargs d =
     and_then (create_3d_axis_icon writable (base_name @ ''.png'') ''png'' kwargs d) (\<lambda>d1.
       create_3d_axis_icon writable (base_name @ ''.svg'') ''svg'' kwargs d1)"

section \<open>The variants\<close>

definition create_multiple_styles :: "(string \<Rightarrow> bool) \<Rightarrow> disk \<Rightarrow> error + disk" where
  "create_multiple_styles writable =
     run_all
      [save_both writable ''axis_standard'' (default_args\<lparr> size_px := (400, 400) \<rparr>),
       save_both writable ''axis_hires'' (default_args\<lparr> size_px := (800, 800), dpi := 300 \<rparr>)]"

definition create_focus_variants :: "(string \<Rightarrow> bool) \<Rightarrow> disk \<Rightarrow> error + disk" where
  "create_focus_variants writable =
     run_all
      [save_both writable ''axis_focus_x''
        (default_args\<lparr> size_px := (400, 400), normal_axis := PyStr ''x'', dim_alpha := 35 / 100 \<rparr>),
       save_both writable ''axis_focus_y''
        (default_args\<lparr> size_px := (400, 400), normal_axis := PyStr ''y'', dim_alpha := 35 / 100 \<rparr>),
       save_both writable ''axis_focus_z''
        (default_args\<lparr> size_px := (400, 400), normal_axis := PyStr ''z'', dim_alpha := 35 / 100 \<rparr>)]"

definition create_all_dim_with_guides :: "(string \<Rightarrow> bool) \<Rightarrow> disk \<Rightarrow> error + disk" where
  "create_all_dim_with_guides writable =
     run_all
      [save_both writable ''axis_dim_011''
        (default_args\<lparr> size_px := (400, 400), normal_axis := PyStr ''all_dim'',
           dim_alpha := 35 / 100,
           guide_to := Some (GSeq [Num 0, Num 1, Num 1]),
           guide_color := ''#b8860b'' \<rparr>),
       save_both writable ''axis_dim_101''
        (default_args\<lparr> size_px := (400, 400), normal_axis := PyStr ''all_dim'',
           dim_alpha := 35 / 100,
           guide_to := Some (GSeq [Num 1, Num 0, Num 1]),
           guide_color := ''#b8860b'' \<rparr>),
       save_both writable ''axis_dim_110''
        (default_args\<lparr> size_px := (400, 400), normal_axis := PyStr ''all_dim'',
           dim_alpha := 35 / 100,
           guide_to := Some (GSeq [Num 1, Num 1, Num 0]),
           guide_color := ''#b8860b'' \<rparr>)]"

definition create_parallelogram_variants :: "(string \<Rightarrow> bool) \<Rightarrow> disk \<Rightarrow> error + disk" where
  "create_parallelogram_variants writable =
     run_all
      [save_both writable ''axis_plane_001_010''
        (default_args\<lparr> size_px := (400, 400), normal_axis := PyStr ''all_dim'',
           dim_alpha := 35 / 100,
           parallelogram := Some
             \<lparr> v1 = Some [Num 0, Num 0, Num 1], v2 = Some [Num 0, Num 1, Num 0],
               fill_color = Some ''#fff6b3'', fill_alpha = Some (35 / 100),
               edge_color = Some ''#b8860b'', edge_style = Some ''--'', edge_lw = Some (22 / 10),
               edge_alpha = None, skip_axis_edges = Some True \<rparr> \<rparr>),
       save_both writable ''axis_plane_010_100''
        (default_args\<lparr> size_px := (400, 400), normal_axis := PyStr ''all_dim'',
           dim_alpha := 35 / 100,
           parallelogram := Some
             \<lparr> v1 = Some [Num 0, Num 1, Num 0], v2 = Some [Num 1, Num 0, Num 0],
               fill_color = Some ''#fff6b3'', fill_alpha = Some (35 / 100),
               edge_color = Some ''#b8860b'', edge_style = Some ''--'', edge_lw = Some (22 / 10),
               edge_alpha = None, skip_axis_edges = Some True \<rparr> \<rparr>),
       save_both writable ''axis_plane_100_001''
        (default_args\<lparr> size_px := (400, 400), normal_axis := PyStr ''all_dim'',
           dim_alpha := 35 / 100,
           parallelogram := Some
             \<lparr> v1 = Some [Num 1, Num 0, Num 0], v2 = Some [Num 0, Num 0, Num 1],
               fill_color = Some ''#fff6b3'', fill_alpha = Some (35 / 100),
               edge_color = Some ''#b8860b'', edge_style = Some ''--'', edge_lw = Some (22 / 10),
               edge_alpha = None, skip_axis_edges = Some True \<rparr> \<rparr>)]"

definition create_parallelogram_variants_composite ::
  "(string \<Rightarrow> bool) \<Rightarrow> disk \<Rightarrow> error + disk" where
  "create_parallelogram_variants_composite writable =
     run_all
      [save_both writable ''axis_plane_011_100''
        (default_args\<lparr> size_px := (400, 400), normal_axis := PyStr ''all_dim'',
           dim_alpha := 35 / 100,
           parallelogram := Some
             \<lparr> v1 = Some [Num 0, Num 1, Num 1], v2 = Some [Num 1, Num 0, Num 0],
               fill_color = Some ''#fff6b3'', fill_alpha = Some (35 / 100),
               edge_color = Some ''#b8860b'', edge_style = Some ''--'', edge_lw = Some (22 / 10),
               edge_alpha = None, skip_axis_edges = Some True \<rparr> \<rparr>),
       save_both writable ''axis_plane_101_010''
        (default_args\<lparr> size_px := (400, 400), normal_axis := PyStr ''all_dim'',
           dim_alpha := 35 / 100,
           parallelogram := Some
             \<lparr> v1 = Some [Num 1, Num 0, Num 1], v2 = Some [Num 0, Num 1, Num 0],
               fill_color = Some ''#fff6b3'', fill_alpha = Some (35 / 100),
               edge_color = Some ''#b8860b'', edge_style = Some ''--'', edge_lw = Some (22 / 10),
               edge_alpha = None, skip_axis_edges = Some True \<rparr> \<rparr>),
       save_both writable ''axis_plane_110_001''
        (default_args\<lparr> size_px := (400, 400), normal_axis := PyStr ''all_dim'',
           dim_alpha := 35 / 100,
           parallelogram := Some
             \<lparr> v1 = Some [Num 1, Num 1, Num 0], v2 = Some [Num 0, Num 0, Num 1],
               fill_color = Some ''#fff6b3'', fill_alpha = Some (35 / 100),
               edge_color = Some ''#b8860b'', edge_style = Some ''--'', edge_lw = Some (22 / 10),
               edge_alpha = None, skip_axis_edges = Some True \<rparr> \<rparr>)]"

definition create_space_diagonal_variant :: "(string \<Rightarrow> bool) \<Rightarrow> disk \<Rightarrow> error + disk" where
  "create_space_diagonal_variant writable =
     (let extra = [((1, 0, 0), (1, 1, 1)), ((0, 1, 0), (1, 1, 1)), ((0, 0, 1), (1, 1, 1))]
      in save_both writable ''axis_diag_111''
          (default_args\<lparr> size_px := (400, 400), normal_axis := PyStr ''all_dim'',
             dim_alpha := 35 / 100,
             guide_to := Some (GSeq [Num 1, Num 1, Num 1]), guide_color := ''#b8860b'',
             guide_lw_main := 3, guide_style_main := ''-'',
             guide_lw_aux := 22 / 10, guide_style_aux := ''--'',
             extra_guides := Some extra \<rparr>))"

section \<open>The reference grid\<close>

definition names :: "string list" where
  "names =
     [''axis_focus_x'', ''axis_focus_y'', ''axis_focus_z'', ''axis_diag_111'',
      ''axis_dim_011'', ''axis_dim_101'', ''axis_dim_110'',
      ''axis_plane_001_010'', ''axis_plane_010_100'', ''axis_plane_100_001'',
      ''axis_plane_011_100'', ''axis_plane_101_010'', ''axis_plane_110_001'']"

text \<open>
  \<^verbatim>\<open>plt.subplots(nrows=4, ncols=4)\<close> followed by \<^verbatim>\<open>axes.ravel()\<close>: the sixteen grid
  positions, row by row.
\<close>

definition ravel_axes :: "(nat \<times> nat) list" where
  "ravel_axes = concat (map (\<lambda>r. map (\<lambda>c. (r, c)) [0, 1, 2, 3]) [0, 1, 2, 3])"

text \<open>\<^verbatim>\<open>create_reference_grid\<close>.\<close>

definition grid_cells :: "disk \<Rightarrow> cell list" where
  "grid_cells d =
     map (\<lambda>(i, (r, c)).
            Cell r c ''#eeeeee''
              (if i < length names then imread d (names ! i @ ''.png'') else None))
         (enumerate 0 ravel_axes)"

definition create_reference_grid :: "(string \<Rightarrow> bool) \<Rightarrow> disk \<Rightarrow> error + disk" where
  "create_reference_grid writable d =
     (let bg = ''#eeeeee''; cells = grid_cells d
      in and_then (savefig writable ''axis_reference_grid.png'' (GridFile ''png'' bg cells) d) (\<lambda>d1.
           savefig writable ''axis_reference_grid.svg'' (GridFile ''svg'' bg cells) d1))"

section \<open>The program\<close>

text \<open>The statements under \<^verbatim>\<open>if __name__ == "__main__"\<close>.\<close>

definition main :: "(string \<Rightarrow> bool) \<Rightarrow> disk \<Rightarrow> error + disk" where
  "main writable =
     run_all
      [create_3d_axis_icon writable ''3d_axis_icon.png'' ''png'' default_args,
       create_multiple_styles writable,
       create_focus_variants writable,
       create_all_dim_with_guides writable,
       create_parallelogram_variants writable,
       create_parallelogram_variants_composite writable,
       create_space_diagonal_variant writable,
       create_reference_grid writable]"

section \<open>Reading a result\<close>

text \<open>The polygons of a scene, in drawing order.\<close>

definition polygons :: "artist list \<Rightarrow> vec3 list list" where
  "polygons sc = concat (map (\<lambda>a. case a of Poly3D vs _ _ \<Rightarrow> [vs] | _ \<Rightarrow> []) sc)"

text \<open>
  The scene held by the file a call of the renderer has just written; \<open>None\<close> when the
  call failed.
\<close>

definition drawn :: "error + disk \<Rightarrow> artist list option" where
  "drawn r =
     (case r of
        Inl e \<Rightarrow> None
      | Inr d \<Rightarrow>
         (case d of
            [] \<Rightarrow> None
          | (path, f) # rest \<Rightarrow>
             (case f of IconFile fmt dp sc \<Rightarrow> Some sc | GridFile fmt bg cells \<Rightarrow> None)))"

text \<open>The paths of the files of a directory, the oldest write first; empty after a failure.\<close>

definition written :: "error + disk \<Rightarrow> string list" where
  "written r = (case r of Inl e \<Rightarrow> [] | Inr d \<Rightarrow> rev (map fst d))"

text \<open>
  A step that, on every directory, writes the paths \<open>ps\<close> in this order: it adds exactly
  these files when all of them can be written, and fails with the write error of the
  first path that cannot.
\<close>

definition runs :: "(string \<Rightarrow> bool) \<Rightarrow> string list \<Rightarrow> (disk \<Rightarrow> error + disk) \<Rightarrow> bool" where
  "runs writable ps step \<longleftrightarrow>
     (\<forall>d. case find (\<lambda>q. \<not> writable q) ps of
            None \<Rightarrow> (\<exists>new. step d = Inr (new @ d) \<and> map fst (rev new) = ps)
          | Some q \<Rightarrow> step d = Inl (WriteError q))"

section \<open>Properties\<close>

subsection \<open>Helper facts\<close>

lemma lower_literals:
  "lower ''x'' = ''x''" "lower ''y'' = ''y''" "lower ''z'' = ''z''"
  "lower ''all_dim'' = ''all_dim''" "lower ''none'' = ''none''"
  "lower ''svg'' = ''svg''" "lower ''png'' = ''png''"
  by (simp_all add: lower_def lower_char_def)

lemma lower_mixed_case:
  "lower ''Dim_All'' = ''dim_all''" "lower ''Y'' = ''y''"
  by code_simp+

lemma icon_drawn:
  "scene_of a = Inr sc \<Longrightarrow> drawn (create_3d_axis_icon (\<lambda>q. True) p f a d) = Some sc"
  by (simp add: create_3d_axis_icon_def and_then_def savefig_def drawn_def)

lemma scene_parts:
  "guide_artists a = Inr gs \<Longrightarrow> pgram_artists a = Inr ps \<Longrightarrow>
   scene_of a = Inr (axis_artists (normal_axis a) (dim_alpha a) @ gs @ ps)"
  by (simp add: scene_of_def and_then_def)

lemma axis_artists_explicit:
  "axis_alphas sel da = (ax, ay, az) \<Longrightarrow>
   axis_artists sel da =
     [Arrow3D (0, 0, 0) (115 / 100, 0, 0) ''#FF0000'' ax,
      Arrow3D (0, 0, 0) (0, 115 / 100, 0) ''#00FF00'' ay,
      Arrow3D (0, 0, 0) (0, 0, 115 / 100) ''#0000FF'' az,
      Label (115 / 100 * (108 / 100), 0, 0) ''X'' ''#FF0000'' ax,
      Label (0, 115 / 100 * (108 / 100), 0) ''Y'' ''#00FF00'' ay,
      Label (0, 0, 115 / 100 * (108 / 100)) ''Z'' ''#0000FF'' az,
      Scatter (0, 0, 0) ''black'' (8 / 10)]"
  by (simp add: axis_artists_def axis_length_def label_offset_def)

lemma axis_alphas_selected:
  "axis_alphas (PyStr ''x'') da = (1, da, da)" "axis_alphas (PyStr ''y'') da = (da, 1, da)"
  "axis_alphas (PyStr ''z'') da = (da, da, 1)" "axis_alphas (PyStr ''all_dim'') da = (da, da, da)"
  "axis_alphas (PyStr ''none'') da = (da, da, da)" "axis_alphas PyNone da = (1, 1, 1)"
  by (simp_all add: axis_alphas_def lower_literals)

lemma guide_none: "guide_to a = None \<Longrightarrow> guide_artists a = Inr []"
  by (simp add: guide_artists_def)

lemma pgram_none: "parallelogram a = None \<Longrightarrow> pgram_artists a = Inr []"
  by (simp add: pgram_artists_def)

lemma default_fields:
  "guide_to default_args = None" "parallelogram default_args = None"
  "normal_axis default_args = PyNone" "dim_alpha default_args = 35 / 100"
  "extra_guides default_args = None" "guide_color default_args = ''#222222''"
  "guide_alpha_main default_args = 1" "guide_lw_main default_args = 3"
  "guide_style_main default_args = ''-''" "guide_alpha_aux default_args = 6 / 10"
  "guide_lw_aux default_args = 22 / 10" "guide_style_aux default_args = ''--''"
  "dpi default_args = 150"
  by (simp_all add: default_args_def)

lemma axis_alphas_str:
  "sel = PyStr s \<or> sel = PyObj s \<Longrightarrow>
   axis_alphas sel da =
     (if lower s = ''x'' then 1 else da, if lower s = ''y'' then 1 else da,
      if lower s = ''z'' then 1 else da)"
  by (auto simp: axis_alphas_def Let_def)

lemma aux_gen:
  assumes ex: "\<And>v. \<not> (P v \<and> Q v)"
  shows "(let ones_axes = map fst (filter (\<lambda>(i, v). P v) (enumerate 0 [x, y, z]));
              zeros_axes = map fst (filter (\<lambda>(i, v). Q v) (enumerate 0 [x, y, z]))
          in if length ones_axes = 2 \<and> length zeros_axes = 1
             then map (\<lambda>ax_idx. (unit_point ax_idx, t)) ones_axes
             else []) =
    (if P x \<and> P y \<and> Q z then [((1, 0, 0), t), ((0, 1, 0), t)]
     else if P x \<and> Q y \<and> P z then [((1, 0, 0), t), ((0, 0, 1), t)]
     else if Q x \<and> P y \<and> P z then [((0, 1, 0), t), ((0, 0, 1), t)]
     else [])"
  using ex [of x] ex [of y] ex [of z]
  by (cases "P x"; cases "P y"; cases "P z"; cases "Q x"; cases "Q y"; cases "Q z")
     (simp_all add: unit_point_def)

lemma near_excl: "\<not> (\<bar>v - 1\<bar> < 1 / 10 ^ 9 \<and> \<bar>v - 0\<bar> < (1::real) / 10 ^ 9)"
  by auto

lemma aux_segments_rule:
  "aux_segments (x, y, z) =
    (if \<bar>x - 1\<bar> < 1 / 10 ^ 9 \<and> \<bar>y - 1\<bar> < 1 / 10 ^ 9 \<and> \<bar>z\<bar> < 1 / 10 ^ 9
       then [((1, 0, 0), (x, y, z)), ((0, 1, 0), (x, y, z))]
     else if \<bar>x - 1\<bar> < 1 / 10 ^ 9 \<and> \<bar>y\<bar> < 1 / 10 ^ 9 \<and> \<bar>z - 1\<bar> < 1 / 10 ^ 9
       then [((1, 0, 0), (x, y, z)), ((0, 0, 1), (x, y, z))]
     else if \<bar>x\<bar> < 1 / 10 ^ 9 \<and> \<bar>y - 1\<bar> < 1 / 10 ^ 9 \<and> \<bar>z - 1\<bar> < 1 / 10 ^ 9
       then [((0, 1, 0), (x, y, z)), ((0, 0, 1), (x, y, z))]
     else [])"
proof -
  have "aux_segments (x, y, z) =
    (let ones_axes = map fst (filter (\<lambda>(i, v). \<bar>v - 1\<bar> < 1 / 10 ^ 9) (enumerate 0 [x, y, z]));
         zeros_axes = map fst (filter (\<lambda>(i, v). \<bar>v - 0\<bar> < 1 / 10 ^ 9) (enumerate 0 [x, y, z]))
     in if length ones_axes = 2 \<and> length zeros_axes = 1
        then map (\<lambda>ax_idx. (unit_point ax_idx, (x, y, z))) ones_axes
        else [])"
    by (simp only: aux_segments_def prod.case)
  also have "\<dots> =
    (if \<bar>x - 1\<bar> < 1 / 10 ^ 9 \<and> \<bar>y - 1\<bar> < 1 / 10 ^ 9 \<and> \<bar>z - 0\<bar> < 1 / 10 ^ 9
       then [((1, 0, 0), (x, y, z)), ((0, 1, 0), (x, y, z))]
     else if \<bar>x - 1\<bar> < 1 / 10 ^ 9 \<and> \<bar>y - 0\<bar> < 1 / 10 ^ 9 \<and> \<bar>z - 1\<bar> < 1 / 10 ^ 9
       then [((1, 0, 0), (x, y, z)), ((0, 0, 1), (x, y, z))]
     else if \<bar>x - 0\<bar> < 1 / 10 ^ 9 \<and> \<bar>y - 1\<bar> < 1 / 10 ^ 9 \<and> \<bar>z - 1\<bar> < 1 / 10 ^ 9
       then [((0, 1, 0), (x, y, z)), ((0, 0, 1), (x, y, z))]
     else [])"
    by (rule aux_gen) (rule near_excl)
  finally show ?thesis by (simp only: diff_zero)
qed

lemma guide_artists_nums:
  "guide_to a = Some (GSeq [Num x, Num y, Num z]) \<Longrightarrow>
   guide_artists a =
     Inr (Plot (0, 0, 0) (x, y, z) (guide_color a) (guide_alpha_main a) (guide_lw_main a)
               (guide_style_main a)
          # map (\<lambda>(s, e). Plot s e (guide_color a) (guide_alpha_aux a) (guide_lw_aux a)
                                  (guide_style_aux a))
                (aux_segments (x, y, z))
          @ map (\<lambda>(s, e). Plot s e (guide_color a) (guide_alpha_aux a) (guide_lw_aux a)
                                  (guide_style_aux a))
                (case extra_guides a of None \<Rightarrow> [] | Some es \<Rightarrow> es))"
  by (simp add: guide_artists_def and_then_def to_float_def split: option.splits)

lemma edge_skip_iff:
  "edge_skip flag (p, q) \<longleftrightarrow>
     flag \<and> ((p = origin \<and> is_unit_axis q) \<or> (q = origin \<and> is_unit_axis p))"
  by (auto simp: edge_skip_def)

lemma float3_nums: "float3 [Num a, Num b, Num c] = Inr (a, b, c)"
  by (simp add: float3_def item_def to_float_def and_then_def)

lemma not_edge_skip_explicit:
  "(\<lambda>e. \<not> edge_skip True e) =
   (\<lambda>(p, q). \<not> (p = (0, 0, 0) \<and> q \<in> {(1, 0, 0), (0, 1, 0), (0, 0, 1)} \<or>
                q = (0, 0, 0) \<and> p \<in> {(1, 0, 0), (0, 1, 0), (0, 0, 1)}))"
proof (rule ext)
  fix e :: "vec3 \<times> vec3"
  obtain p q where e: "e = (p, q)" by (cases e)
  show "(\<not> edge_skip True e) =
     (case e of (p, q) \<Rightarrow> \<not> (p = (0, 0, 0) \<and> q \<in> {(1, 0, 0), (0, 1, 0), (0, 0, 1)} \<or>
                q = (0, 0, 0) \<and> p \<in> {(1, 0, 0), (0, 1, 0), (0, 0, 1)}))"
    unfolding e by (simp add: edge_skip_iff origin_def is_unit_axis_def)
qed

lemma stroked_explicit:
  "stroked_edges True (a0, a1, a2) (d0, d1, d2) =
     filter (\<lambda>(p, q). \<not> (p = (0, 0, 0) \<and> q \<in> {(1, 0, 0), (0, 1, 0), (0, 0, 1)} \<or>
                         q = (0, 0, 0) \<and> p \<in> {(1, 0, 0), (0, 1, 0), (0, 0, 1)}))
       [((0, 0, 0), (a0, a1, a2)),
        ((a0, a1, a2), (a0 + d0, a1 + d1, a2 + d2)),
        ((a0 + d0, a1 + d1, a2 + d2), (d0, d1, d2)),
        ((d0, d1, d2), (0, 0, 0))]"
  by (simp only: stroked_edges_def not_edge_skip_explicit quad_edges_def corner_B_def origin_def
      prod.case)

lemma pgram_artists_nums:
  "parallelogram a = Some pg \<Longrightarrow>
   v1 pg = Some [Num a0, Num a1, Num a2] \<Longrightarrow> v2 pg = Some [Num d0, Num d1, Num d2] \<Longrightarrow>
   pgram_artists a =
     Inr (Poly3D [(0, 0, 0), (a0, a1, a2), (a0 + d0, a1 + d1, a2 + d2), (d0, d1, d2)]
            (dict_get (fill_color pg) ''#fff6b3'') (dict_get (fill_alpha pg) (35 / 100))
          # map (\<lambda>(p, q). Plot p q (dict_get (edge_color pg) ''#b8860b'')
                                  (dict_get (edge_alpha pg) (6 / 10))
                                  (dict_get (edge_lw pg) (22 / 10))
                                  (dict_get (edge_style pg) ''--''))
              (stroked_edges (dict_get (skip_axis_edges pg) True) (a0, a1, a2) (d0, d1, d2)))"
  by (simp add: pgram_artists_def float3_nums and_then_def quad_verts_def corner_B_def origin_def
      dict_get_def)

lemma flag_enabled: "skip \<noteq> Some False \<Longrightarrow> dict_get skip True = True"
  by (cases skip) (simp_all add: dict_get_def)

lemma pgram_general:
  assumes "guide_artists a = Inr gs" and "parallelogram a = Some pg"
    and "v1 pg = Some [Num a0, Num a1, Num a2]" and "v2 pg = Some [Num d0, Num d1, Num d2]"
    and "skip_axis_edges pg \<noteq> Some False"
  shows "drawn (create_3d_axis_icon (\<lambda>q. True) p f a d) =
      Some (axis_artists (normal_axis a) (dim_alpha a) @ gs @
            Poly3D [(0, 0, 0), (a0, a1, a2), (a0 + d0, a1 + d1, a2 + d2), (d0, d1, d2)]
              (dict_get (fill_color pg) ''#fff6b3'') (dict_get (fill_alpha pg) (35 / 100))
            # map (\<lambda>(p, q). Plot p q (dict_get (edge_color pg) ''#b8860b'')
                                    (dict_get (edge_alpha pg) (6 / 10))
                                    (dict_get (edge_lw pg) (22 / 10))
                                    (dict_get (edge_style pg) ''--''))
                (filter (\<lambda>(p, q). \<not> (p = (0, 0, 0) \<and> q \<in> {(1, 0, 0), (0, 1, 0), (0, 0, 1)} \<or>
                                    q = (0, 0, 0) \<and> p \<in> {(1, 0, 0), (0, 1, 0), (0, 0, 1)}))
                   [((0, 0, 0), (a0, a1, a2)),
                    ((a0, a1, a2), (a0 + d0, a1 + d1, a2 + d2)),
                    ((a0 + d0, a1 + d1, a2 + d2), (d0, d1, d2)),
                    ((d0, d1, d2), (0, 0, 0))]))"
  using scene_parts [OF assms(1) pgram_artists_nums [OF assms(2,3,4)]]
  by (simp only: icon_drawn flag_enabled [OF assms(5)] stroked_explicit)

lemma polygons_append: "polygons (xs @ ys) = polygons xs @ polygons ys"
  by (simp add: polygons_def)

lemma polygons_Cons_Poly: "polygons (Poly3D vs c al # sc) = vs # polygons sc"
  by (simp add: polygons_def)

lemma polygons_Cons_Plot: "polygons (Plot p q c al lw st # sc) = polygons sc"
  by (simp add: polygons_def)

lemma polygons_Plots: "polygons (map (\<lambda>(p, q). Plot p q c al lw st) es) = []"
  by (induction es) (auto simp: polygons_def)

lemma polygons_axes: "polygons (axis_artists sel da) = []"
  by (cases "axis_alphas sel da") (simp add: axis_artists_def polygons_def)

lemma polygons_guide:
  assumes "guide_artists a = Inr gs"
  shows "polygons gs = []"
proof (cases "guide_to a")
  case None
  with assms show ?thesis by (simp add: guide_artists_def polygons_def)
next
  case (Some g)
  obtain gx gy gz where u: "unpack_guide g = (gx, gy, gz)"
    by (cases "unpack_guide g")
  from assms Some u show ?thesis
    by (cases gx; cases gy; cases gz; cases "extra_guides a")
       (auto simp: guide_artists_def and_then_def to_float_def polygons_append
          polygons_Cons_Plot polygons_Plots)
qed

lemma prefix_png_straddle:
  assumes "prefix ''.png'' (s @ ''.svg'')"
  shows "prefix ''.png'' s"
proof (cases s)
  case Nil
  with assms show ?thesis by simp
next
  case s1: (Cons c1 t1)
  show ?thesis
  proof (cases t1)
    case Nil
    with assms s1 show ?thesis by simp
  next
    case s2: (Cons c2 t2)
    show ?thesis
    proof (cases t2)
      case Nil
      with assms s1 s2 show ?thesis by simp
    next
      case s3: (Cons c3 t3)
      show ?thesis
      proof (cases t3)
        case Nil
        with assms s1 s2 s3 show ?thesis by simp
      next
        case (Cons c4 t4)
        with assms s1 s2 s3 show ?thesis by simp
      qed
    qed
  qed
qed

lemma replace_str_skip:
  "old \<noteq> [] \<Longrightarrow> \<not> prefix old (c # s) \<Longrightarrow>
   replace_str old new (c # s) = c # replace_str old new s"
  by simp

lemma replace_png_svg_id:
  "\<not> sublist ''.png'' b \<Longrightarrow> replace_str ''.png'' ''.svg'' (b @ ''.svg'') = b @ ''.svg''"
proof (induction b)
  case Nil
  show ?case by simp
next
  case (Cons c cs)
  from Cons.prems have np: "\<not> prefix ''.png'' (c # cs)" and ns: "\<not> sublist ''.png'' cs"
    by (simp_all add: sublist_Cons_right)
  from np have h: "\<not> prefix ''.png'' (c # (cs @ ''.svg''))"
    using prefix_png_straddle [of "c # cs"] unfolding append_Cons by blast
  have "replace_str ''.png'' ''.svg'' (c # (cs @ ''.svg'')) =
        c # replace_str ''.png'' ''.svg'' (cs @ ''.svg'')"
    by (rule replace_str_skip [OF _ h]) (rule list.distinct(2))
  also have "\<dots> = c # (cs @ ''.svg'')"
    by (simp only: Cons.IH [OF ns])
  finally show ?case by (simp only: append_Cons)
qed

lemma names_no_png:
  "\<forall>n \<in> set ([''axis_standard'', ''axis_hires''] @ names). \<not> sublist ''.png'' n"
  by (simp add: names_def sublist_code)

lemma scene_of_default: "scene_of default_args = Inr (axis_artists PyNone (35 / 100))"
  by (simp add: scene_of_def guide_artists_def pgram_artists_def default_args_def and_then_def)

lemma enum_ravel: "enumerate 0 ravel_axes =
  [(0,(0,0)),(1,(0,1)),(2,(0,2)),(3,(0,3)),
   (4,(1,0)),(5,(1,1)),(6,(1,2)),(7,(1,3)),
   (8,(2,0)),(9,(2,1)),(10,(2,2)),(11,(2,3)),
   (12,(3,0)),(13,(3,1)),(14,(3,2)),(15,(3,3))]"
  by (simp add: ravel_axes_def)

lemma names_nth:
  "names ! 0 = ''axis_focus_x''" "names ! 1 = ''axis_focus_y''" "names ! 2 = ''axis_focus_z''"
  "names ! 3 = ''axis_diag_111''" "names ! 4 = ''axis_dim_011''" "names ! 5 = ''axis_dim_101''"
  "names ! 6 = ''axis_dim_110''" "names ! 7 = ''axis_plane_001_010''"
  "names ! 8 = ''axis_plane_010_100''" "names ! 9 = ''axis_plane_100_001''"
  "names ! 10 = ''axis_plane_011_100''" "names ! 11 = ''axis_plane_101_010''"
  "names ! 12 = ''axis_plane_110_001''" "length names = 13"
  "names ! Suc 0 = ''axis_focus_y''"
  by (simp_all add: names_def)

lemma grid_cells_eq: "grid_cells d =
  [Cell 0 0 ''#eeeeee'' (imread d ''axis_focus_x.png''),
   Cell 0 1 ''#eeeeee'' (imread d ''axis_focus_y.png''),
   Cell 0 2 ''#eeeeee'' (imread d ''axis_focus_z.png''),
   Cell 0 3 ''#eeeeee'' (imread d ''axis_diag_111.png''),
   Cell 1 0 ''#eeeeee'' (imread d ''axis_dim_011.png''),
   Cell 1 1 ''#eeeeee'' (imread d ''axis_dim_101.png''),
   Cell 1 2 ''#eeeeee'' (imread d ''axis_dim_110.png''),
   Cell 1 3 ''#eeeeee'' (imread d ''axis_plane_001_010.png''),
   Cell 2 0 ''#eeeeee'' (imread d ''axis_plane_010_100.png''),
   Cell 2 1 ''#eeeeee'' (imread d ''axis_plane_100_001.png''),
   Cell 2 2 ''#eeeeee'' (imread d ''axis_plane_011_100.png''),
   Cell 2 3 ''#eeeeee'' (imread d ''axis_plane_101_010.png''),
   Cell 3 0 ''#eeeeee'' (imread d ''axis_plane_110_001.png''),
   Cell 3 1 ''#eeeeee'' None,
   Cell 3 2 ''#eeeeee'' None,
   Cell 3 3 ''#eeeeee'' None]"
  unfolding grid_cells_def enum_ravel
  by (simp add: names_nth)

lemma grid_ok:
  "writable ''axis_reference_grid.png'' \<Longrightarrow> writable ''axis_reference_grid.svg'' \<Longrightarrow>
   create_reference_grid writable d =
     Inr ((''axis_reference_grid.svg'', GridFile ''svg'' ''#eeeeee'' (grid_cells d)) #
          (''axis_reference_grid.png'', GridFile ''png'' ''#eeeeee'' (grid_cells d)) # d)"
  by (simp add: create_reference_grid_def savefig_def and_then_def Let_def)

lemma save_both_result:
  assumes "\<not> sublist ''.png'' base_name"
  shows "save_both writable base_name kwargs d =
     (case scene_of kwargs of
        Inl e \<Rightarrow> Inl e
      | Inr scene \<Rightarrow>
          if \<not> writable (base_name @ ''.png'') then Inl (WriteError (base_name @ ''.png''))
          else if \<not> writable (base_name @ ''.svg'') then Inl (WriteError (base_name @ ''.svg''))
          else Inr ((base_name @ ''.svg'', IconFile ''svg'' None scene) #
                    (base_name @ ''.png'', IconFile ''png'' (Some (dpi kwargs)) scene) # d))"
  using replace_png_svg_id [OF assms]
  by (simp add: save_both_def create_3d_axis_icon_def lower_literals savefig_def and_then_def
      split: sum.splits)

lemma find_append:
  "find P (xs @ ys) = (case find P xs of None \<Rightarrow> find P ys | Some x \<Rightarrow> Some x)"
  by (induction xs) auto

lemma runs_Nil: "runs writable [] (run_all [])"
  by (simp add: runs_def)

lemma runs_Cons:
  assumes "runs writable ps step" and "runs writable qs (run_all steps)"
  shows "runs writable (ps @ qs) (run_all (step # steps))"
  unfolding runs_def
proof
  fix d
  show "case find (\<lambda>q. \<not> writable q) (ps @ qs) of
          None \<Rightarrow> \<exists>new. run_all (step # steps) d = Inr (new @ d) \<and> map fst (rev new) = ps @ qs
        | Some q \<Rightarrow> run_all (step # steps) d = Inl (WriteError q)"
  proof (cases "find (\<lambda>q. \<not> writable q) ps")
    case (Some q)
    with assms(1) have "step d = Inl (WriteError q)"
      unfolding runs_def by (simp split: option.splits)
    with Some show ?thesis by (simp add: find_append and_then_def)
  next
    case None
    with assms(1) obtain n1 where 1: "step d = Inr (n1 @ d)" "map fst (rev n1) = ps"
      unfolding runs_def by (auto split: option.splits)
    show ?thesis
    proof (cases "find (\<lambda>q. \<not> writable q) qs")
      case (Some q)
      with assms(2) have "run_all steps (n1 @ d) = Inl (WriteError q)"
        unfolding runs_def by (simp split: option.splits)
      with None Some 1 show ?thesis by (simp add: find_append and_then_def)
    next
      case N2: None
      with assms(2) obtain n2 where
        2: "run_all steps (n1 @ d) = Inr (n2 @ n1 @ d)" "map fst (rev n2) = qs"
        unfolding runs_def by (auto split: option.splits)
      from 1 2 have "run_all (step # steps) d = Inr ((n2 @ n1) @ d) \<and>
          map fst (rev (n2 @ n1)) = ps @ qs"
        by (simp add: and_then_def)
      then have "\<exists>new. run_all (step # steps) d = Inr (new @ d) \<and> map fst (rev new) = ps @ qs"
        by (rule exI [where x = "n2 @ n1"])
      with None N2 show ?thesis by (simp add: find_append)
    qed
  qed
qed

lemma runs_eq: "runs writable ps step \<Longrightarrow> ps = qs \<Longrightarrow> runs writable qs step"
  by simp

lemma runs_icon:
  assumes "scene_of a = Inr sc" and "lower f \<noteq> ''svg''"
  shows "runs writable [p] (create_3d_axis_icon writable p f a)"
  unfolding runs_def
proof
  fix d
  show "case find (\<lambda>q. \<not> writable q) [p] of
          None \<Rightarrow> \<exists>new. create_3d_axis_icon writable p f a d = Inr (new @ d) \<and>
                         map fst (rev new) = [p]
        | Some q \<Rightarrow> create_3d_axis_icon writable p f a d = Inl (WriteError q)"
  proof (cases "writable p")
    case True
    have "\<exists>new. create_3d_axis_icon writable p f a d = Inr (new @ d) \<and> map fst (rev new) = [p]"
      using assms True
      by (intro exI [where x = "[(p, IconFile ''png'' (Some (dpi a)) sc)]"])
         (simp add: create_3d_axis_icon_def and_then_def savefig_def)
    with True show ?thesis by simp
  next
    case False
    with assms show ?thesis
      by (simp add: create_3d_axis_icon_def and_then_def savefig_def)
  qed
qed

lemma runs_save_both:
  assumes "\<not> sublist ''.png'' b" and "\<exists>sc. scene_of kw = Inr sc"
  shows "runs writable [b @ ''.png'', b @ ''.svg''] (save_both writable b kw)"
  unfolding runs_def
proof
  fix d
  from assms(2) obtain sc where sc: "scene_of kw = Inr sc" ..
  show "case find (\<lambda>q. \<not> writable q) [b @ ''.png'', b @ ''.svg''] of
          None \<Rightarrow> \<exists>new. save_both writable b kw d = Inr (new @ d) \<and>
                         map fst (rev new) = [b @ ''.png'', b @ ''.svg'']
        | Some q \<Rightarrow> save_both writable b kw d = Inl (WriteError q)"
  proof (cases "writable (b @ ''.png'')")
    case False
    with sc show ?thesis by (simp add: save_both_result [OF assms(1)])
  next
    case T1: True
    show ?thesis
    proof (cases "writable (b @ ''.svg'')")
      case False
      with T1 sc show ?thesis by (simp add: save_both_result [OF assms(1)])
    next
      case True
      have "\<exists>new. save_both writable b kw d = Inr (new @ d) \<and>
                  map fst (rev new) = [b @ ''.png'', b @ ''.svg'']"
        using sc T1 True
        by (intro exI [where x = "[(b @ ''.svg'', IconFile ''svg'' None sc),
                                   (b @ ''.png'', IconFile ''png'' (Some (dpi kw)) sc)]"])
           (simp add: save_both_result [OF assms(1)])
      with T1 True show ?thesis by simp
    qed
  qed
qed

lemma runs_grid:
  "runs writable [''axis_reference_grid.png'', ''axis_reference_grid.svg'']
     (create_reference_grid writable)"
  unfolding runs_def
proof
  fix d
  show "case find (\<lambda>q. \<not> writable q) [''axis_reference_grid.png'', ''axis_reference_grid.svg''] of
          None \<Rightarrow> \<exists>new. create_reference_grid writable d = Inr (new @ d) \<and>
              map fst (rev new) = [''axis_reference_grid.png'', ''axis_reference_grid.svg'']
        | Some q \<Rightarrow> create_reference_grid writable d = Inl (WriteError q)"
  proof (cases "writable ''axis_reference_grid.png''")
    case False
    then show ?thesis
      by (simp add: create_reference_grid_def savefig_def and_then_def Let_def)
  next
    case T1: True
    show ?thesis
    proof (cases "writable ''axis_reference_grid.svg''")
      case False
      with T1 show ?thesis
        by (simp add: create_reference_grid_def savefig_def and_then_def Let_def)
    next
      case True
      have "\<exists>new. create_reference_grid writable d = Inr (new @ d) \<and>
              map fst (rev new) = [''axis_reference_grid.png'', ''axis_reference_grid.svg'']"
        using T1 True
        by (intro exI [where x = "[(''axis_reference_grid.svg'', GridFile ''svg'' ''#eeeeee'' (grid_cells d)),
               (''axis_reference_grid.png'', GridFile ''png'' ''#eeeeee'' (grid_cells d))]"])
           (simp add: grid_ok)
      with T1 True show ?thesis by simp
    qed
  qed
qed

lemma scene_ok_args:
  "guide_to a = None \<or> (\<exists>x y z. guide_to a = Some (GSeq [Num x, Num y, Num z])) \<Longrightarrow>
   parallelogram a = None \<or>
     (\<exists>pg a0 a1 a2 d0 d1 d2. parallelogram a = Some pg \<and>
        v1 pg = Some [Num a0, Num a1, Num a2] \<and> v2 pg = Some [Num d0, Num d1, Num d2]) \<Longrightarrow>
   \<exists>sc. scene_of a = Inr sc"
  by (auto simp: scene_of_def guide_artists_def pgram_artists_def and_then_def dict_get_def
      float3_nums to_float_def)

lemma runs_create_multiple_styles:
  "runs writable [''axis_standard.png'', ''axis_standard.svg'', ''axis_hires.png'', ''axis_hires.svg'']
     (create_multiple_styles writable)"
proof -
  have s0: "runs writable [''axis_standard'' @ ''.png'', ''axis_standard'' @ ''.svg'']
     (save_both writable ''axis_standard'' (default_args\<lparr> size_px := (400, 400) \<rparr>))"
    by (rule runs_save_both, simp add: sublist_code, rule scene_ok_args)
       (simp_all add: default_args_def)
  have s1: "runs writable [''axis_hires'' @ ''.png'', ''axis_hires'' @ ''.svg'']
     (save_both writable ''axis_hires'' (default_args\<lparr> size_px := (800, 800), dpi := 300 \<rparr>))"
    by (rule runs_save_both, simp add: sublist_code, rule scene_ok_args)
       (simp_all add: default_args_def)
  show ?thesis
    unfolding create_multiple_styles_def
    by (rule runs_eq [OF runs_Cons [OF s0 runs_Cons [OF s1 runs_Nil]]]) simp
qed

lemma runs_create_focus_variants:
  "runs writable [''axis_focus_x.png'', ''axis_focus_x.svg'', ''axis_focus_y.png'', ''axis_focus_y.svg'', ''axis_focus_z.png'', ''axis_focus_z.svg'']
     (create_focus_variants writable)"
proof -
  have s0: "runs writable [''axis_focus_x'' @ ''.png'', ''axis_focus_x'' @ ''.svg'']
     (save_both writable ''axis_focus_x''
        (default_args\<lparr> size_px := (400, 400), normal_axis := PyStr ''x'', dim_alpha := 35 / 100 \<rparr>))"
    by (rule runs_save_both, simp add: sublist_code, rule scene_ok_args)
       (simp_all add: default_args_def)
  have s1: "runs writable [''axis_focus_y'' @ ''.png'', ''axis_focus_y'' @ ''.svg'']
     (save_both writable ''axis_focus_y''
        (default_args\<lparr> size_px := (400, 400), normal_axis := PyStr ''y'', dim_alpha := 35 / 100 \<rparr>))"
    by (rule runs_save_both, simp add: sublist_code, rule scene_ok_args)
       (simp_all add: default_args_def)
  have s2: "runs writable [''axis_focus_z'' @ ''.png'', ''axis_focus_z'' @ ''.svg'']
     (save_both writable ''axis_focus_z''
        (default_args\<lparr> size_px := (400, 400), normal_axis := PyStr ''z'', dim_alpha := 35 / 100 \<rparr>))"
    by (rule runs_save_both, simp add: sublist_code, rule scene_ok_args)
       (simp_all add: default_args_def)
  show ?thesis
    unfolding create_focus_variants_def
    by (rule runs_eq [OF runs_Cons [OF s0 runs_Cons [OF s1 runs_Cons [OF s2 runs_Nil]]]]) simp
qed

lemma runs_create_all_dim_with_guides:
  "runs writable [''axis_dim_011.png'', ''axis_dim_011.svg'', ''axis_dim_101.png'', ''axis_dim_101.svg'', ''axis_dim_110.png'', ''axis_dim_110.svg'']
     (create_all_dim_with_guides writable)"
proof -
  have s0: "runs writable [''axis_dim_011'' @ ''.png'', ''axis_dim_011'' @ ''.svg'']
     (save_both writable ''axis_dim_011''
        (default_args\<lparr> size_px := (400, 400), normal_axis := PyStr ''all_dim'',
           dim_alpha := 35 / 100,
           guide_to := Some (GSeq [Num 0, Num 1, Num 1]),
           guide_color := ''#b8860b'' \<rparr>))"
    by (rule runs_save_both, simp add: sublist_code, rule scene_ok_args)
       (simp_all add: default_args_def)
  have s1: "runs writable [''axis_dim_101'' @ ''.png'', ''axis_dim_101'' @ ''.svg'']
     (save_both writable ''axis_dim_101''
        (default_args\<lparr> size_px := (400, 400), normal_axis := PyStr ''all_dim'',
           dim_alpha := 35 / 100,
           guide_to := Some (GSeq [Num 1, Num 0, Num 1]),
           guide_color := ''#b8860b'' \<rparr>))"
    by (rule runs_save_both, simp add: sublist_code, rule scene_ok_args)
       (simp_all add: default_args_def)
  have s2: "runs writable [''axis_dim_110'' @ ''.png'', ''axis_dim_110'' @ ''.svg'']
     (save_both writable ''axis_dim_110''
        (default_args\<lparr> size_px := (400, 400), normal_axis := PyStr ''all_dim'',
           dim_alpha := 35 / 100,
           guide_to := Some (GSeq [Num 1, Num 1, Num 0]),
           guide_color := ''#b8860b'' \<rparr>))"
    by (rule runs_save_both, simp add: sublist_code, rule scene_ok_args)
       (simp_all add: default_args_def)
  show ?thesis
    unfolding create_all_dim_with_guides_def
    by (rule runs_eq [OF runs_Cons [OF s0 runs_Cons [OF s1 runs_Cons [OF s2 runs_Nil]]]]) simp
qed

lemma runs_create_parallelogram_variants:
  "runs writable [''axis_plane_001_010.png'', ''axis_plane_001_010.svg'', ''axis_plane_010_100.png'', ''axis_plane_010_100.svg'', ''axis_plane_100_001.png'', ''axis_plane_100_001.svg'']
     (create_parallelogram_variants writable)"
proof -
  have s0: "runs writable [''axis_plane_001_010'' @ ''.png'', ''axis_plane_001_010'' @ ''.svg'']
     (save_both writable ''axis_plane_001_010''
        (default_args\<lparr> size_px := (400, 400), normal_axis := PyStr ''all_dim'',
           dim_alpha := 35 / 100,
           parallelogram := Some
             \<lparr> v1 = Some [Num 0, Num 0, Num 1], v2 = Some [Num 0, Num 1, Num 0],
               fill_color = Some ''#fff6b3'', fill_alpha = Some (35 / 100),
               edge_color = Some ''#b8860b'', edge_style = Some ''--'', edge_lw = Some (22 / 10),
               edge_alpha = None, skip_axis_edges = Some True \<rparr> \<rparr>))"
    by (rule runs_save_both, simp add: sublist_code, rule scene_ok_args)
       (simp_all add: default_args_def)
  have s1: "runs writable [''axis_plane_010_100'' @ ''.png'', ''axis_plane_010_100'' @ ''.svg'']
     (save_both writable ''axis_plane_010_100''
        (default_args\<lparr> size_px := (400, 400), normal_axis := PyStr ''all_dim'',
           dim_alpha := 35 / 100,
           parallelogram := Some
             \<lparr> v1 = Some [Num 0, Num 1, Num 0], v2 = Some [Num 1, Num 0, Num 0],
               fill_color = Some ''#fff6b3'', fill_alpha = Some (35 / 100),
               edge_color = Some ''#b8860b'', edge_style = Some ''--'', edge_lw = Some (22 / 10),
               edge_alpha = None, skip_axis_edges = Some True \<rparr> \<rparr>))"
    by (rule runs_save_both, simp add: sublist_code, rule scene_ok_args)
       (simp_all add: default_args_def)
  have s2: "runs writable [''axis_plane_100_001'' @ ''.png'', ''axis_plane_100_001'' @ ''.svg'']
     (save_both writable ''axis_plane_100_001''
        (default_args\<lparr> size_px := (400, 400), normal_axis := PyStr ''all_dim'',
           dim_alpha := 35 / 100,
           parallelogram := Some
             \<lparr> v1 = Some [Num 1, Num 0, Num 0], v2 = Some [Num 0, Num 0, Num 1],
               fill_color = Some ''#fff6b3'', fill_alpha = Some (35 / 100),
               edge_color = Some ''#b8860b'', edge_style = Some ''--'', edge_lw = Some (22 / 10),
               edge_alpha = None, skip_axis_edges = Some True \<rparr> \<rparr>))"
    by (rule runs_save_both, simp add: sublist_code, rule scene_ok_args)
       (simp_all add: default_args_def)
  show ?thesis
    unfolding create_parallelogram_variants_def
    by (rule runs_eq [OF runs_Cons [OF s0 runs_Cons [OF s1 runs_Cons [OF s2 runs_Nil]]]]) simp
qed

lemma runs_create_parallelogram_variants_composite:
  "runs writable [''axis_plane_011_100.png'', ''axis_plane_011_100.svg'', ''axis_plane_101_010.png'', ''axis_plane_101_010.svg'', ''axis_plane_110_001.png'', ''axis_plane_110_001.svg'']
     (create_parallelogram_variants_composite writable)"
proof -
  have s0: "runs writable [''axis_plane_011_100'' @ ''.png'', ''axis_plane_011_100'' @ ''.svg'']
     (save_both writable ''axis_plane_011_100''
        (default_args\<lparr> size_px := (400, 400), normal_axis := PyStr ''all_dim'',
           dim_alpha := 35 / 100,
           parallelogram := Some
             \<lparr> v1 = Some [Num 0, Num 1, Num 1], v2 = Some [Num 1, Num 0, Num 0],
               fill_color = Some ''#fff6b3'', fill_alpha = Some (35 / 100),
               edge_color = Some ''#b8860b'', edge_style = Some ''--'', edge_lw = Some (22 / 10),
               edge_alpha = None, skip_axis_edges = Some True \<rparr> \<rparr>))"
    by (rule runs_save_both, simp add: sublist_code, rule scene_ok_args)
       (simp_all add: default_args_def)
  have s1: "runs writable [''axis_plane_101_010'' @ ''.png'', ''axis_plane_101_010'' @ ''.svg'']
     (save_both writable ''axis_plane_101_010''
        (default_args\<lparr> size_px := (400, 400), normal_axis := PyStr ''all_dim'',
           dim_alpha := 35 / 100,
           parallelogram := Some
             \<lparr> v1 = Some [Num 1, Num 0, Num 1], v2 = Some [Num 0, Num 1, Num 0],
               fill_color = Some ''#fff6b3'', fill_alpha = Some (35 / 100),
               edge_color = Some ''#b8860b'', edge_style = Some ''--'', edge_lw = Some (22 / 10),
               edge_alpha = None, skip_axis_edges = Some True \<rparr> \<rparr>))"
    by (rule runs_save_both, simp add: sublist_code, rule scene_ok_args)
       (simp_all add: default_args_def)
  have s2: "runs writable [''axis_plane_110_001'' @ ''.png'', ''axis_plane_110_001'' @ ''.svg'']
     (save_both writable ''axis_plane_110_001''
        (default_args\<lparr> size_px := (400, 400), normal_axis := PyStr ''all_dim'',
           dim_alpha := 35 / 100,
           parallelogram := Some
             \<lparr> v1 = Some [Num 1, Num 1, Num 0], v2 = Some [Num 0, Num 0, Num 1],
               fill_color = Some ''#fff6b3'', fill_alpha = Some (35 / 100),
               edge_color = Some ''#b8860b'', edge_style = Some ''--'', edge_lw = Some (22 / 10),
               edge_alpha = None, skip_axis_edges = Some True \<rparr> \<rparr>))"
    by (rule runs_save_both, simp add: sublist_code, rule scene_ok_args)
       (simp_all add: default_args_def)
  show ?thesis
    unfolding create_parallelogram_variants_composite_def
    by (rule runs_eq [OF runs_Cons [OF s0 runs_Cons [OF s1 runs_Cons [OF s2 runs_Nil]]]]) simp
qed

lemma runs_create_space_diagonal_variant:
  "runs writable [''axis_diag_111.png'', ''axis_diag_111.svg'']
     (create_space_diagonal_variant writable)"
  unfolding create_space_diagonal_variant_def Let_def
  by (rule runs_eq, rule runs_save_both, simp add: sublist_code, rule scene_ok_args)
     (simp_all add: default_args_def)

lemma runs_main:
  "runs writable
     [''3d_axis_icon.png'',
      ''axis_standard.png'', ''axis_standard.svg'', ''axis_hires.png'', ''axis_hires.svg'',
      ''axis_focus_x.png'', ''axis_focus_x.svg'', ''axis_focus_y.png'', ''axis_focus_y.svg'',
      ''axis_focus_z.png'', ''axis_focus_z.svg'',
      ''axis_dim_011.png'', ''axis_dim_011.svg'', ''axis_dim_101.png'', ''axis_dim_101.svg'',
      ''axis_dim_110.png'', ''axis_dim_110.svg'',
      ''axis_plane_001_010.png'', ''axis_plane_001_010.svg'',
      ''axis_plane_010_100.png'', ''axis_plane_010_100.svg'',
      ''axis_plane_100_001.png'', ''axis_plane_100_001.svg'',
      ''axis_plane_011_100.png'', ''axis_plane_011_100.svg'',
      ''axis_plane_101_010.png'', ''axis_plane_101_010.svg'',
      ''axis_plane_110_001.png'', ''axis_plane_110_001.svg'',
      ''axis_diag_111.png'', ''axis_diag_111.svg'',
      ''axis_reference_grid.png'', ''axis_reference_grid.svg'']
     (main writable)"
proof -
  have s0: "runs writable [''3d_axis_icon.png'']
      (create_3d_axis_icon writable ''3d_axis_icon.png'' ''png'' default_args)"
    by (rule runs_icon [OF scene_of_default]) (simp add: lower_literals)
  have g: "runs writable ([''axis_reference_grid.png'', ''axis_reference_grid.svg''] @ [])
      (run_all [create_reference_grid writable])"
    by (rule runs_Cons [OF runs_grid runs_Nil])
  show ?thesis
    unfolding main_def
    by (rule runs_eq [OF runs_Cons [OF s0
          runs_Cons [OF runs_create_multiple_styles
          runs_Cons [OF runs_create_focus_variants
          runs_Cons [OF runs_create_all_dim_with_guides
          runs_Cons [OF runs_create_parallelogram_variants
          runs_Cons [OF runs_create_parallelogram_variants_composite
          runs_Cons [OF runs_create_space_diagonal_variant g]]]]]]]])
       simp
qed

lemma main_all_writable:
  "\<exists>new. main (\<lambda>p. True) d = Inr (new @ d) \<and>
     map fst (rev new) =
     [''3d_axis_icon.png'',
      ''axis_standard.png'', ''axis_standard.svg'', ''axis_hires.png'', ''axis_hires.svg'',
      ''axis_focus_x.png'', ''axis_focus_x.svg'', ''axis_focus_y.png'', ''axis_focus_y.svg'',
      ''axis_focus_z.png'', ''axis_focus_z.svg'',
      ''axis_dim_011.png'', ''axis_dim_011.svg'', ''axis_dim_101.png'', ''axis_dim_101.svg'',
      ''axis_dim_110.png'', ''axis_dim_110.svg'',
      ''axis_plane_001_010.png'', ''axis_plane_001_010.svg'',
      ''axis_plane_010_100.png'', ''axis_plane_010_100.svg'',
      ''axis_plane_100_001.png'', ''axis_plane_100_001.svg'',
      ''axis_plane_011_100.png'', ''axis_plane_011_100.svg'',
      ''axis_plane_101_010.png'', ''axis_plane_101_010.svg'',
      ''axis_plane_110_001.png'', ''axis_plane_110_001.svg'',
      ''axis_diag_111.png'', ''axis_diag_111.svg'',
      ''axis_reference_grid.png'', ''axis_reference_grid.svg'']"
proof -
  define ps where "ps =
     [''3d_axis_icon.png'',
      ''axis_standard.png'', ''axis_standard.svg'', ''axis_hires.png'', ''axis_hires.svg'',
      ''axis_focus_x.png'', ''axis_focus_x.svg'', ''axis_focus_y.png'', ''axis_focus_y.svg'',
      ''axis_focus_z.png'', ''axis_focus_z.svg'',
      ''axis_dim_011.png'', ''axis_dim_011.svg'', ''axis_dim_101.png'', ''axis_dim_101.svg'',
      ''axis_dim_110.png'', ''axis_dim_110.svg'',
      ''axis_plane_001_010.png'', ''axis_plane_001_010.svg'',
      ''axis_plane_010_100.png'', ''axis_plane_010_100.svg'',
      ''axis_plane_100_001.png'', ''axis_plane_100_001.svg'',
      ''axis_plane_011_100.png'', ''axis_plane_011_100.svg'',
      ''axis_plane_101_010.png'', ''axis_plane_101_010.svg'',
      ''axis_plane_110_001.png'', ''axis_plane_110_001.svg'',
      ''axis_diag_111.png'', ''axis_diag_111.svg'',
      ''axis_reference_grid.png'', ''axis_reference_grid.svg'']"
  have r: "runs (\<lambda>p. True) ps (main (\<lambda>p. True))"
    unfolding ps_def by (rule runs_main)
  have f: "find (\<lambda>q. \<not> True) ps = None"
    by (simp add: ps_def)
  from r have "case find (\<lambda>q. \<not> True) ps of
        None \<Rightarrow> \<exists>new. main (\<lambda>p. True) d = Inr (new @ d) \<and> map fst (rev new) = ps
      | Some q \<Rightarrow> main (\<lambda>p. True) d = Inl (WriteError q)"
    unfolding runs_def by (rule spec)
  then have "\<exists>new. main (\<lambda>p. True) d = Inr (new @ d) \<and> map fst (rev new) = ps"
    by (simp only: f option.case)
  then show ?thesis unfolding ps_def .
qed

lemma float3_bad:
  assumes "length v < 3 \<or> NonNum \<in> set (take 3 v)"
  shows "\<exists>e. float3 v = Inl e"
proof (cases v)
  case Nil
  then show ?thesis by (simp add: float3_def item_def and_then_def)
next
  case v1: (Cons a t1)
  show ?thesis
  proof (cases t1)
    case Nil
    with v1 show ?thesis
      by (cases a) (simp_all add: float3_def item_def and_then_def to_float_def)
  next
    case v2: (Cons b t2)
    show ?thesis
    proof (cases t2)
      case Nil
      with v1 v2 show ?thesis
        by (cases a; cases b) (simp_all add: float3_def item_def and_then_def to_float_def)
    next
      case (Cons c t3)
      with v1 v2 assms have "a = NonNum \<or> b = NonNum \<or> c = NonNum"
        by (auto simp: take_Cons')
      with v1 v2 Cons show ?thesis
        by (cases a; cases b; cases c)
           (simp_all add: float3_def item_def and_then_def to_float_def)
    qed
  qed
qed

lemma pgram_bad:
  assumes "parallelogram a = Some pg" and "v1 pg = Some v \<or> v2 pg = Some v"
    and "length v < 3 \<or> NonNum \<in> set (take 3 v)"
  shows "\<exists>e. pgram_artists a = Inl e"
proof -
  from float3_bad [OF assms(3)] obtain e where e: "float3 v = Inl e" ..
  from assms(2) show ?thesis
  proof
    assume "v1 pg = Some v"
    with assms(1) e show ?thesis
      by (simp add: pgram_artists_def dict_get_def and_then_def)
  next
    assume "v2 pg = Some v"
    with assms(1) e show ?thesis
      by (cases "float3 (dict_get (v1 pg) [Num 0, Num 0, Num 0])")
         (simp_all add: pgram_artists_def dict_get_def and_then_def)
  qed
qed

lemma guide_bad:
  assumes "guide_to a = Some (GSeq [gx, gy, gz])" and "NonNum \<in> set [gx, gy, gz]"
  shows "guide_artists a = Inl BadNumber"
  using assms
  by (cases gx; cases gy; cases gz)
     (simp_all add: guide_artists_def and_then_def to_float_def)

lemma icon_scene_error:
  "scene_of a = Inl e \<Longrightarrow> create_3d_axis_icon writable p f a d = Inl e"
  by (simp add: create_3d_axis_icon_def and_then_def)

lemma unpack_other:
  "(\<forall>x y z. g \<noteq> GSeq [x, y, z]) \<Longrightarrow> unpack_guide g = (Num 0, Num 0, Num 0)"
  by (cases g rule: unpack_guide.cases) auto

lemma run_all_append:
  "run_all (xs @ ys) d = and_then (run_all xs d) (run_all ys)"
proof (induction xs arbitrary: d)
  case Nil
  show ?case by (simp add: and_then_def)
next
  case (Cons x xs)
  show ?case
    by (cases "x d") (simp_all add: and_then_def Cons.IH)
qed

lemma guide_artists_malformed:
  assumes "guide_to a = Some g" and "\<forall>x y z. g \<noteq> GSeq [x, y, z]"
  shows "guide_artists a =
     Inr (Plot (0, 0, 0) (0, 0, 0) (guide_color a) (guide_alpha_main a) (guide_lw_main a)
               (guide_style_main a)
          # map (\<lambda>(s, e). Plot s e (guide_color a) (guide_alpha_aux a) (guide_lw_aux a)
                                  (guide_style_aux a))
                (case extra_guides a of None \<Rightarrow> [] | Some es \<Rightarrow> es))"
proof -
  have u: "unpack_guide g = (Num 0, Num 0, Num 0)"
    using assms(2) by (rule unpack_other)
  have z: "aux_segments (0, 0, 0) = []"
    by (simp add: aux_segments_rule)
  show ?thesis
    by (simp add: guide_artists_def assms(1) u and_then_def to_float_def z split: option.splits)
qed

lemma dpi_default: "dpi default_args = 150"
  by (simp add: default_args_def)

subsection \<open>Axis emphasis\<close>

text \<open>
  Claim C3. When the guide lines and the parallelogram, if any, can be drawn, the saved
  scene starts with the X, Y and Z arrows, the X, Y and Z labels and the origin marker.
  With the selector \<open>x\<close>, \<open>y\<close> or \<open>z\<close> the arrow and the label of that axis have opacity 1
  and those of the two other axes have the dim opacity; with \<open>all_dim\<close> or \<open>none\<close> all
  three axes have the dim opacity; without a selector all three have opacity 1.
\<close>

theorem axis_emphasis_opacity:
  assumes "guide_artists a = Inr gs" and "pgram_artists a = Inr ps"
    and "(normal_axis a = PyStr ''x'' \<and> (ax, ay, az) = (1, dim_alpha a, dim_alpha a)) \<or>
         (normal_axis a = PyStr ''y'' \<and> (ax, ay, az) = (dim_alpha a, 1, dim_alpha a)) \<or>
         (normal_axis a = PyStr ''z'' \<and> (ax, ay, az) = (dim_alpha a, dim_alpha a, 1)) \<or>
         (normal_axis a = PyStr ''all_dim'' \<and> (ax, ay, az) = (dim_alpha a, dim_alpha a, dim_alpha a)) \<or>
         (normal_axis a = PyStr ''none'' \<and> (ax, ay, az) = (dim_alpha a, dim_alpha a, dim_alpha a)) \<or>
         (normal_axis a = PyNone \<and> (ax, ay, az) = (1, 1, 1))"
  shows "drawn (create_3d_axis_icon (\<lambda>q. True) p f a d) =
     Some ([Arrow3D (0, 0, 0) (115 / 100, 0, 0) ''#FF0000'' ax,
            Arrow3D (0, 0, 0) (0, 115 / 100, 0) ''#00FF00'' ay,
            Arrow3D (0, 0, 0) (0, 0, 115 / 100) ''#0000FF'' az,
            Label (115 / 100 * (108 / 100), 0, 0) ''X'' ''#FF0000'' ax,
            Label (0, 115 / 100 * (108 / 100), 0) ''Y'' ''#00FF00'' ay,
            Label (0, 0, 115 / 100 * (108 / 100)) ''Z'' ''#0000FF'' az,
            Scatter (0, 0, 0) ''black'' (8 / 10)] @ gs @ ps)"
proof -
  from assms(3) have "axis_alphas (normal_axis a) (dim_alpha a) = (ax, ay, az)"
    by (auto simp: axis_alphas_selected)
  then have "axis_artists (normal_axis a) (dim_alpha a) =
     [Arrow3D (0, 0, 0) (115 / 100, 0, 0) ''#FF0000'' ax,
      Arrow3D (0, 0, 0) (0, 115 / 100, 0) ''#00FF00'' ay,
      Arrow3D (0, 0, 0) (0, 0, 115 / 100) ''#0000FF'' az,
      Label (115 / 100 * (108 / 100), 0, 0) ''X'' ''#FF0000'' ax,
      Label (0, 115 / 100 * (108 / 100), 0) ''Y'' ''#00FF00'' ay,
      Label (0, 0, 115 / 100 * (108 / 100)) ''Z'' ''#0000FF'' az,
      Scatter (0, 0, 0) ''black'' (8 / 10)]"
    by (rule axis_artists_explicit)
  with scene_parts [OF assms(1,2)] show ?thesis
    by (simp only: icon_drawn)
qed

theorem axis_emphasis_opacity_witness:
  "drawn (create_3d_axis_icon (\<lambda>q. True) ''axis_focus_x.png'' ''png''
            (default_args\<lparr> normal_axis := PyStr ''x'' \<rparr>) []) =
     Some [Arrow3D (0, 0, 0) (115 / 100, 0, 0) ''#FF0000'' 1,
           Arrow3D (0, 0, 0) (0, 115 / 100, 0) ''#00FF00'' (35 / 100),
           Arrow3D (0, 0, 0) (0, 0, 115 / 100) ''#0000FF'' (35 / 100),
           Label (115 / 100 * (108 / 100), 0, 0) ''X'' ''#FF0000'' 1,
           Label (0, 115 / 100 * (108 / 100), 0) ''Y'' ''#00FF00'' (35 / 100),
           Label (0, 0, 115 / 100 * (108 / 100)) ''Z'' ''#0000FF'' (35 / 100),
           Scatter (0, 0, 0) ''black'' (8 / 10)] \<and>
   drawn (create_3d_axis_icon (\<lambda>q. True) ''axis.svg'' ''svg''
            (default_args\<lparr> normal_axis := PyStr ''none'' \<rparr>) []) =
     Some [Arrow3D (0, 0, 0) (115 / 100, 0, 0) ''#FF0000'' (35 / 100),
           Arrow3D (0, 0, 0) (0, 115 / 100, 0) ''#00FF00'' (35 / 100),
           Arrow3D (0, 0, 0) (0, 0, 115 / 100) ''#0000FF'' (35 / 100),
           Label (115 / 100 * (108 / 100), 0, 0) ''X'' ''#FF0000'' (35 / 100),
           Label (0, 115 / 100 * (108 / 100), 0) ''Y'' ''#00FF00'' (35 / 100),
           Label (0, 0, 115 / 100 * (108 / 100)) ''Z'' ''#0000FF'' (35 / 100),
           Scatter (0, 0, 0) ''black'' (8 / 10)]"
proof -
  have g1: "guide_artists (default_args\<lparr> normal_axis := PyStr ''x'' \<rparr>) = Inr []"
    by (rule guide_none) (simp add: default_fields)
  have p1: "pgram_artists (default_args\<lparr> normal_axis := PyStr ''x'' \<rparr>) = Inr []"
    by (rule pgram_none) (simp add: default_fields)
  have g2: "guide_artists (default_args\<lparr> normal_axis := PyStr ''none'' \<rparr>) = Inr []"
    by (rule guide_none) (simp add: default_fields)
  have p2: "pgram_artists (default_args\<lparr> normal_axis := PyStr ''none'' \<rparr>) = Inr []"
    by (rule pgram_none) (simp add: default_fields)
  show ?thesis
    using axis_emphasis_opacity [OF g1 p1, of 1 "35 / 100" "35 / 100" "''axis_focus_x.png''" "''png''" "[]"]
      axis_emphasis_opacity [OF g2 p2, of "35 / 100" "35 / 100" "35 / 100" "''axis.svg''" "''svg''" "[]"]
    by (simp add: default_fields)
qed

text \<open>
  Claim C10, amended. For a selector other than \<^verbatim>\<open>None\<close>, a string or any other object
  with \<^verbatim>\<open>str()\<close> form \<open>s\<close>, the saved scene gives opacity 1 to the axis named by the
  lowercase form of \<open>s\<close> and the dim opacity to the others. So a selector whose
  lowercase form is not \<open>x\<close>, \<open>y\<close> or \<open>z\<close> dims all three axes; every such selector
  leaves at least two axes at the dim opacity; and at most one axis is fully opaque,
  provided the dim opacity is not itself 1. Without a selector (\<^verbatim>\<open>None\<close>) all three
  axes are fully opaque.
\<close>

theorem selector_dims_all_but_one:
  assumes "guide_artists a = Inr gs" and "pgram_artists a = Inr ps"
  shows
   "(normal_axis a = PyStr s \<or> normal_axis a = PyObj s \<longrightarrow>
       drawn (create_3d_axis_icon (\<lambda>q. True) p f a d) =
         Some ([Arrow3D (0, 0, 0) (115 / 100, 0, 0) ''#FF0000'' (if lower s = ''x'' then 1 else dim_alpha a),
                Arrow3D (0, 0, 0) (0, 115 / 100, 0) ''#00FF00'' (if lower s = ''y'' then 1 else dim_alpha a),
                Arrow3D (0, 0, 0) (0, 0, 115 / 100) ''#0000FF'' (if lower s = ''z'' then 1 else dim_alpha a),
                Label (115 / 100 * (108 / 100), 0, 0) ''X'' ''#FF0000'' (if lower s = ''x'' then 1 else dim_alpha a),
                Label (0, 115 / 100 * (108 / 100), 0) ''Y'' ''#00FF00'' (if lower s = ''y'' then 1 else dim_alpha a),
                Label (0, 0, 115 / 100 * (108 / 100)) ''Z'' ''#0000FF'' (if lower s = ''z'' then 1 else dim_alpha a),
                Scatter (0, 0, 0) ''black'' (8 / 10)] @ gs @ ps) \<and>
       (lower s \<notin> {''x'', ''y'', ''z''} \<longrightarrow>
         drawn (create_3d_axis_icon (\<lambda>q. True) p f a d) =
           Some ([Arrow3D (0, 0, 0) (115 / 100, 0, 0) ''#FF0000'' (dim_alpha a),
                  Arrow3D (0, 0, 0) (0, 115 / 100, 0) ''#00FF00'' (dim_alpha a),
                  Arrow3D (0, 0, 0) (0, 0, 115 / 100) ''#0000FF'' (dim_alpha a),
                  Label (115 / 100 * (108 / 100), 0, 0) ''X'' ''#FF0000'' (dim_alpha a),
                  Label (0, 115 / 100 * (108 / 100), 0) ''Y'' ''#00FF00'' (dim_alpha a),
                  Label (0, 0, 115 / 100 * (108 / 100)) ''Z'' ''#0000FF'' (dim_alpha a),
                  Scatter (0, 0, 0) ''black'' (8 / 10)] @ gs @ ps)) \<and>
       length (filter (\<lambda>al. al \<noteq> dim_alpha a)
         [(if lower s = ''x'' then 1 else dim_alpha a),
          (if lower s = ''y'' then 1 else dim_alpha a),
          (if lower s = ''z'' then 1 else dim_alpha a)]) \<le> 1 \<and>
       (dim_alpha a \<noteq> 1 \<longrightarrow>
         length (filter (\<lambda>al. al = 1)
           [(if lower s = ''x'' then 1 else dim_alpha a),
            (if lower s = ''y'' then 1 else dim_alpha a),
            (if lower s = ''z'' then 1 else dim_alpha a)]) \<le> 1)) \<and>
    (normal_axis a = PyNone \<longrightarrow>
       drawn (create_3d_axis_icon (\<lambda>q. True) p f a d) =
         Some ([Arrow3D (0, 0, 0) (115 / 100, 0, 0) ''#FF0000'' 1,
                Arrow3D (0, 0, 0) (0, 115 / 100, 0) ''#00FF00'' 1,
                Arrow3D (0, 0, 0) (0, 0, 115 / 100) ''#0000FF'' 1,
                Label (115 / 100 * (108 / 100), 0, 0) ''X'' ''#FF0000'' 1,
                Label (0, 115 / 100 * (108 / 100), 0) ''Y'' ''#00FF00'' 1,
                Label (0, 0, 115 / 100 * (108 / 100)) ''Z'' ''#0000FF'' 1,
                Scatter (0, 0, 0) ''black'' (8 / 10)] @ gs @ ps))"
proof (intro conjI impI)
  assume sel: "normal_axis a = PyStr s \<or> normal_axis a = PyObj s"
  have al: "axis_alphas (normal_axis a) (dim_alpha a) =
     ((if lower s = ''x'' then 1 else dim_alpha a), (if lower s = ''y'' then 1 else dim_alpha a), (if lower s = ''z'' then 1 else dim_alpha a))"
    using sel by (rule axis_alphas_str)
  show dr: "drawn (create_3d_axis_icon (\<lambda>q. True) p f a d) =
         Some ([Arrow3D (0, 0, 0) (115 / 100, 0, 0) ''#FF0000'' (if lower s = ''x'' then 1 else dim_alpha a),
                Arrow3D (0, 0, 0) (0, 115 / 100, 0) ''#00FF00'' (if lower s = ''y'' then 1 else dim_alpha a),
                Arrow3D (0, 0, 0) (0, 0, 115 / 100) ''#0000FF'' (if lower s = ''z'' then 1 else dim_alpha a),
                Label (115 / 100 * (108 / 100), 0, 0) ''X'' ''#FF0000'' (if lower s = ''x'' then 1 else dim_alpha a),
                Label (0, 115 / 100 * (108 / 100), 0) ''Y'' ''#00FF00'' (if lower s = ''y'' then 1 else dim_alpha a),
                Label (0, 0, 115 / 100 * (108 / 100)) ''Z'' ''#0000FF'' (if lower s = ''z'' then 1 else dim_alpha a),
                Scatter (0, 0, 0) ''black'' (8 / 10)] @ gs @ ps)"
    using scene_parts [OF assms] axis_artists_explicit [OF al] by (simp only: icon_drawn)
  show "length (filter (\<lambda>al. al \<noteq> dim_alpha a)
         [(if lower s = ''x'' then 1 else dim_alpha a),
          (if lower s = ''y'' then 1 else dim_alpha a),
          (if lower s = ''z'' then 1 else dim_alpha a)]) \<le> 1"
    by auto
  show "length (filter (\<lambda>al. al = 1)
           [(if lower s = ''x'' then 1 else dim_alpha a),
            (if lower s = ''y'' then 1 else dim_alpha a),
            (if lower s = ''z'' then 1 else dim_alpha a)]) \<le> 1"
    if "dim_alpha a \<noteq> 1"
    using that by auto
  show "drawn (create_3d_axis_icon (\<lambda>q. True) p f a d) =
           Some ([Arrow3D (0, 0, 0) (115 / 100, 0, 0) ''#FF0000'' (dim_alpha a),
                  Arrow3D (0, 0, 0) (0, 115 / 100, 0) ''#00FF00'' (dim_alpha a),
                  Arrow3D (0, 0, 0) (0, 0, 115 / 100) ''#0000FF'' (dim_alpha a),
                  Label (115 / 100 * (108 / 100), 0, 0) ''X'' ''#FF0000'' (dim_alpha a),
                  Label (0, 115 / 100 * (108 / 100), 0) ''Y'' ''#00FF00'' (dim_alpha a),
                  Label (0, 0, 115 / 100 * (108 / 100)) ''Z'' ''#0000FF'' (dim_alpha a),
                  Scatter (0, 0, 0) ''black'' (8 / 10)] @ gs @ ps)"
    if "lower s \<notin> {''x'', ''y'', ''z''}"
  proof -
    from that have "(if lower s = ''x'' then 1 else dim_alpha a) = dim_alpha a" "(if lower s = ''y'' then 1 else dim_alpha a) = dim_alpha a" "(if lower s = ''z'' then 1 else dim_alpha a) = dim_alpha a"
      by simp_all
    with dr show ?thesis by (simp only:)
  qed
next
  assume "normal_axis a = PyNone"
  then have al: "axis_alphas (normal_axis a) (dim_alpha a) = (1, 1, 1)"
    by (simp add: axis_alphas_def)
  show "drawn (create_3d_axis_icon (\<lambda>q. True) p f a d) =
         Some ([Arrow3D (0, 0, 0) (115 / 100, 0, 0) ''#FF0000'' 1,
                Arrow3D (0, 0, 0) (0, 115 / 100, 0) ''#00FF00'' 1,
                Arrow3D (0, 0, 0) (0, 0, 115 / 100) ''#0000FF'' 1,
                Label (115 / 100 * (108 / 100), 0, 0) ''X'' ''#FF0000'' 1,
                Label (0, 115 / 100 * (108 / 100), 0) ''Y'' ''#00FF00'' 1,
                Label (0, 0, 115 / 100 * (108 / 100)) ''Z'' ''#0000FF'' 1,
                Scatter (0, 0, 0) ''black'' (8 / 10)] @ gs @ ps)"
    using scene_parts [OF assms] axis_artists_explicit [OF al] by (simp only: icon_drawn)
qed

theorem selector_dims_all_but_one_witness:
  "drawn (create_3d_axis_icon (\<lambda>q. True) ''icon.png'' ''png''
            (default_args\<lparr> normal_axis := PyStr ''Dim_All'' \<rparr>) []) =
     Some [Arrow3D (0, 0, 0) (115 / 100, 0, 0) ''#FF0000'' (35 / 100),
           Arrow3D (0, 0, 0) (0, 115 / 100, 0) ''#00FF00'' (35 / 100),
           Arrow3D (0, 0, 0) (0, 0, 115 / 100) ''#0000FF'' (35 / 100),
           Label (115 / 100 * (108 / 100), 0, 0) ''X'' ''#FF0000'' (35 / 100),
           Label (0, 115 / 100 * (108 / 100), 0) ''Y'' ''#00FF00'' (35 / 100),
           Label (0, 0, 115 / 100 * (108 / 100)) ''Z'' ''#0000FF'' (35 / 100),
           Scatter (0, 0, 0) ''black'' (8 / 10)] \<and>
   drawn (create_3d_axis_icon (\<lambda>q. True) ''icon.png'' ''png''
            (default_args\<lparr> normal_axis := PyObj ''Y'' \<rparr>) []) =
     Some [Arrow3D (0, 0, 0) (115 / 100, 0, 0) ''#FF0000'' (35 / 100),
           Arrow3D (0, 0, 0) (0, 115 / 100, 0) ''#00FF00'' 1,
           Arrow3D (0, 0, 0) (0, 0, 115 / 100) ''#0000FF'' (35 / 100),
           Label (115 / 100 * (108 / 100), 0, 0) ''X'' ''#FF0000'' (35 / 100),
           Label (0, 115 / 100 * (108 / 100), 0) ''Y'' ''#00FF00'' 1,
           Label (0, 0, 115 / 100 * (108 / 100)) ''Z'' ''#0000FF'' (35 / 100),
           Scatter (0, 0, 0) ''black'' (8 / 10)] \<and>
   drawn (create_3d_axis_icon (\<lambda>q. True) ''icon.png'' ''png'' default_args []) =
     Some [Arrow3D (0, 0, 0) (115 / 100, 0, 0) ''#FF0000'' 1,
           Arrow3D (0, 0, 0) (0, 115 / 100, 0) ''#00FF00'' 1,
           Arrow3D (0, 0, 0) (0, 0, 115 / 100) ''#0000FF'' 1,
           Label (115 / 100 * (108 / 100), 0, 0) ''X'' ''#FF0000'' 1,
           Label (0, 115 / 100 * (108 / 100), 0) ''Y'' ''#00FF00'' 1,
           Label (0, 0, 115 / 100 * (108 / 100)) ''Z'' ''#0000FF'' 1,
           Scatter (0, 0, 0) ''black'' (8 / 10)]"
proof -
  have g1: "guide_artists (default_args\<lparr> normal_axis := PyStr ''Dim_All'' \<rparr>) = Inr []"
    by (rule guide_none) (simp add: default_fields)
  have p1: "pgram_artists (default_args\<lparr> normal_axis := PyStr ''Dim_All'' \<rparr>) = Inr []"
    by (rule pgram_none) (simp add: default_fields)
  have g2: "guide_artists (default_args\<lparr> normal_axis := PyObj ''Y'' \<rparr>) = Inr []"
    by (rule guide_none) (simp add: default_fields)
  have p2: "pgram_artists (default_args\<lparr> normal_axis := PyObj ''Y'' \<rparr>) = Inr []"
    by (rule pgram_none) (simp add: default_fields)
  have g3: "guide_artists default_args = Inr []"
    by (rule guide_none) (simp add: default_fields)
  have p3: "pgram_artists default_args = Inr []"
    by (rule pgram_none) (simp add: default_fields)
  have w1: "drawn (create_3d_axis_icon (\<lambda>q. True) ''icon.png'' ''png''
            (default_args\<lparr> normal_axis := PyStr ''Dim_All'' \<rparr>) []) =
     Some [Arrow3D (0, 0, 0) (115 / 100, 0, 0) ''#FF0000'' (35 / 100),
           Arrow3D (0, 0, 0) (0, 115 / 100, 0) ''#00FF00'' (35 / 100),
           Arrow3D (0, 0, 0) (0, 0, 115 / 100) ''#0000FF'' (35 / 100),
           Label (115 / 100 * (108 / 100), 0, 0) ''X'' ''#FF0000'' (35 / 100),
           Label (0, 115 / 100 * (108 / 100), 0) ''Y'' ''#00FF00'' (35 / 100),
           Label (0, 0, 115 / 100 * (108 / 100)) ''Z'' ''#0000FF'' (35 / 100),
           Scatter (0, 0, 0) ''black'' (8 / 10)]"
    using selector_dims_all_but_one [OF g1 p1, of "''Dim_All''" "''icon.png''" "''png''" "[]"]
    by (simp add: default_fields lower_mixed_case)
  have w2: "drawn (create_3d_axis_icon (\<lambda>q. True) ''icon.png'' ''png''
            (default_args\<lparr> normal_axis := PyObj ''Y'' \<rparr>) []) =
     Some [Arrow3D (0, 0, 0) (115 / 100, 0, 0) ''#FF0000'' (35 / 100),
           Arrow3D (0, 0, 0) (0, 115 / 100, 0) ''#00FF00'' 1,
           Arrow3D (0, 0, 0) (0, 0, 115 / 100) ''#0000FF'' (35 / 100),
           Label (115 / 100 * (108 / 100), 0, 0) ''X'' ''#FF0000'' (35 / 100),
           Label (0, 115 / 100 * (108 / 100), 0) ''Y'' ''#00FF00'' 1,
           Label (0, 0, 115 / 100 * (108 / 100)) ''Z'' ''#0000FF'' (35 / 100),
           Scatter (0, 0, 0) ''black'' (8 / 10)]"
    using selector_dims_all_but_one [OF g2 p2, of "''Y''" "''icon.png''" "''png''" "[]"]
    by (simp add: default_fields lower_mixed_case)
  have w3: "drawn (create_3d_axis_icon (\<lambda>q. True) ''icon.png'' ''png'' default_args []) =
     Some [Arrow3D (0, 0, 0) (115 / 100, 0, 0) ''#FF0000'' 1,
           Arrow3D (0, 0, 0) (0, 115 / 100, 0) ''#00FF00'' 1,
           Arrow3D (0, 0, 0) (0, 0, 115 / 100) ''#0000FF'' 1,
           Label (115 / 100 * (108 / 100), 0, 0) ''X'' ''#FF0000'' 1,
           Label (0, 115 / 100 * (108 / 100), 0) ''Y'' ''#00FF00'' 1,
           Label (0, 0, 115 / 100 * (108 / 100)) ''Z'' ''#0000FF'' 1,
           Scatter (0, 0, 0) ''black'' (8 / 10)]"
    using selector_dims_all_but_one [OF g3 p3, of "''x''" "''icon.png''" "''png''" "[]"]
    by (simp add: default_fields)
  from w1 w2 w3 show ?thesis by (intro conjI)
qed

text \<open>
  With the selector \<open>x\<close> and a dim opacity of 1, the saved scene has all three axes fully
  opaque: the claim that no selector makes more than one axis fully opaque fails there.
\<close>

theorem selector_x_dim_one_all_opaque:
  "drawn (create_3d_axis_icon (\<lambda>q. True) ''icon.png'' ''png''
            (default_args\<lparr> normal_axis := PyStr ''x'', dim_alpha := 1 \<rparr>) []) =
     Some [Arrow3D (0, 0, 0) (115 / 100, 0, 0) ''#FF0000'' 1,
           Arrow3D (0, 0, 0) (0, 115 / 100, 0) ''#00FF00'' 1,
           Arrow3D (0, 0, 0) (0, 0, 115 / 100) ''#0000FF'' 1,
           Label (115 / 100 * (108 / 100), 0, 0) ''X'' ''#FF0000'' 1,
           Label (0, 115 / 100 * (108 / 100), 0) ''Y'' ''#00FF00'' 1,
           Label (0, 0, 115 / 100 * (108 / 100)) ''Z'' ''#0000FF'' 1,
           Scatter (0, 0, 0) ''black'' (8 / 10)]"
proof -
  have g: "guide_artists (default_args\<lparr> normal_axis := PyStr ''x'', dim_alpha := 1 \<rparr>) = Inr []"
    by (rule guide_none) (simp add: default_fields)
  have p: "pgram_artists (default_args\<lparr> normal_axis := PyStr ''x'', dim_alpha := 1 \<rparr>) = Inr []"
    by (rule pgram_none) (simp add: default_fields)
  have al: "axis_alphas (normal_axis (default_args\<lparr> normal_axis := PyStr ''x'', dim_alpha := 1 \<rparr>))
      (dim_alpha (default_args\<lparr> normal_axis := PyStr ''x'', dim_alpha := 1 \<rparr>)) = (1, 1, 1)"
    by (simp add: axis_alphas_selected)
  show ?thesis
    using scene_parts [OF g p] axis_artists_explicit [OF al]
    by (simp add: icon_drawn)
qed

subsection \<open>Guide lines\<close>

text \<open>
  Claim C1, amended. For a guide target of three numbers the saved scene holds, after the
  axes, the solid main line from the origin to the target, then the auto-derived dashed
  segments, then the caller's extra dashed segments, then the parallelogram. There are two
  auto-derived segments exactly when two coordinates of the target are 1 and the third is
  0 (each within \<open>10\<^sup>-\<^sup>9\<close>); they run from the unit axis points of the two coordinates
  that are 1 to the target. Every other target has none.
\<close>

theorem guide_aux_segments_rule:
  assumes "guide_to a = Some (GSeq [Num x, Num y, Num z])" and "pgram_artists a = Inr ps"
  shows "drawn (create_3d_axis_icon (\<lambda>q. True) p f a d) =
     Some (axis_artists (normal_axis a) (dim_alpha a)
           @ Plot (0, 0, 0) (x, y, z) (guide_color a) (guide_alpha_main a) (guide_lw_main a)
                  (guide_style_main a)
           # map (\<lambda>(s, e). Plot s e (guide_color a) (guide_alpha_aux a) (guide_lw_aux a)
                                   (guide_style_aux a))
               (if \<bar>x - 1\<bar> < 1 / 10 ^ 9 \<and> \<bar>y - 1\<bar> < 1 / 10 ^ 9 \<and> \<bar>z\<bar> < 1 / 10 ^ 9
                  then [((1, 0, 0), (x, y, z)), ((0, 1, 0), (x, y, z))]
                else if \<bar>x - 1\<bar> < 1 / 10 ^ 9 \<and> \<bar>y\<bar> < 1 / 10 ^ 9 \<and> \<bar>z - 1\<bar> < 1 / 10 ^ 9
                  then [((1, 0, 0), (x, y, z)), ((0, 0, 1), (x, y, z))]
                else if \<bar>x\<bar> < 1 / 10 ^ 9 \<and> \<bar>y - 1\<bar> < 1 / 10 ^ 9 \<and> \<bar>z - 1\<bar> < 1 / 10 ^ 9
                  then [((0, 1, 0), (x, y, z)), ((0, 0, 1), (x, y, z))]
                else [])
           @ map (\<lambda>(s, e). Plot s e (guide_color a) (guide_alpha_aux a) (guide_lw_aux a)
                                   (guide_style_aux a))
               (case extra_guides a of None \<Rightarrow> [] | Some es \<Rightarrow> es)
           @ ps)"
  using scene_parts [OF guide_artists_nums [OF assms(1)] assms(2)]
  by (simp only: icon_drawn aux_segments_rule append_Cons append_assoc)

theorem guide_aux_segments_rule_witness:
  "drawn (create_3d_axis_icon (\<lambda>q. True) ''icon.png'' ''png''
            (default_args\<lparr> guide_to := Some (GSeq [Num 1, Num 0, Num 1]) \<rparr>) []) =
     Some (axis_artists PyNone (35 / 100) @
           [Plot (0, 0, 0) (1, 0, 1) ''#222222'' 1 3 ''-'',
            Plot (1, 0, 0) (1, 0, 1) ''#222222'' (6 / 10) (22 / 10) ''--'',
            Plot (0, 0, 1) (1, 0, 1) ''#222222'' (6 / 10) (22 / 10) ''--'']) \<and>
   drawn (create_3d_axis_icon (\<lambda>q. True) ''icon.png'' ''png''
            (default_args\<lparr> guide_to := Some (GSeq [Num 1, Num 1, Num 1]) \<rparr>) []) =
     Some (axis_artists PyNone (35 / 100) @
           [Plot (0, 0, 0) (1, 1, 1) ''#222222'' 1 3 ''-'']) \<and>
   drawn (create_3d_axis_icon (\<lambda>q. True) ''icon.png'' ''png''
            (default_args\<lparr> guide_to := Some (GSeq [Num (1 / 2), Num 0, Num 0]) \<rparr>) []) =
     Some (axis_artists PyNone (35 / 100) @
           [Plot (0, 0, 0) (1 / 2, 0, 0) ''#222222'' 1 3 ''-''])"
proof -
  have p: "pgram_artists (default_args\<lparr> guide_to := g \<rparr>) = Inr []" for g
    by (rule pgram_none) (simp add: default_fields)
  have w1: "drawn (create_3d_axis_icon (\<lambda>q. True) ''icon.png'' ''png''
            (default_args\<lparr> guide_to := Some (GSeq [Num 1, Num 0, Num 1]) \<rparr>) []) =
     Some (axis_artists PyNone (35 / 100) @
           [Plot (0, 0, 0) (1, 0, 1) ''#222222'' 1 3 ''-'',
            Plot (1, 0, 0) (1, 0, 1) ''#222222'' (6 / 10) (22 / 10) ''--'',
            Plot (0, 0, 1) (1, 0, 1) ''#222222'' (6 / 10) (22 / 10) ''--''])"
    using guide_aux_segments_rule [OF _ p, of "Some (GSeq [Num 1, Num 0, Num 1])" 1 0 1
        "''icon.png''" "''png''" "[]"]
    by (simp add: default_fields)
  have w2: "drawn (create_3d_axis_icon (\<lambda>q. True) ''icon.png'' ''png''
            (default_args\<lparr> guide_to := Some (GSeq [Num 1, Num 1, Num 1]) \<rparr>) []) =
     Some (axis_artists PyNone (35 / 100) @
           [Plot (0, 0, 0) (1, 1, 1) ''#222222'' 1 3 ''-''])"
    using guide_aux_segments_rule [OF _ p, of "Some (GSeq [Num 1, Num 1, Num 1])" 1 1 1
        "''icon.png''" "''png''" "[]"]
    by (simp add: default_fields)
  have w3: "drawn (create_3d_axis_icon (\<lambda>q. True) ''icon.png'' ''png''
            (default_args\<lparr> guide_to := Some (GSeq [Num (1 / 2), Num 0, Num 0]) \<rparr>) []) =
     Some (axis_artists PyNone (35 / 100) @
           [Plot (0, 0, 0) (1 / 2, 0, 0) ''#222222'' 1 3 ''-''])"
    using guide_aux_segments_rule [OF _ p, of "Some (GSeq [Num (1 / 2), Num 0, Num 0])" "1 / 2" 0 0
        "''icon.png''" "''png''" "[]"]
    by (simp add: default_fields)
  from w1 w2 w3 show ?thesis by (intro conjI)
qed

text \<open>
  The target \<open>(1, 1, 1/2)\<close> has exactly two coordinates equal to 1, and the saved scene
  holds the main guide line only: no auxiliary segment.
\<close>

theorem guide_two_ones_third_not_zero:
  "drawn (create_3d_axis_icon (\<lambda>q. True) ''icon.png'' ''png''
            (default_args\<lparr> guide_to := Some (GSeq [Num 1, Num 1, Num (1 / 2)]) \<rparr>) []) =
     Some (axis_artists PyNone (35 / 100) @
           [Plot (0, 0, 0) (1, 1, 1 / 2) ''#222222'' 1 3 ''-''])"
proof -
  have g: "guide_artists (default_args\<lparr> guide_to := Some (GSeq [Num 1, Num 1, Num (1 / 2)]) \<rparr>) =
     Inr [Plot (0, 0, 0) (1, 1, 1 / 2) ''#222222'' 1 3 ''-'']"
    by (simp add: guide_artists_def default_args_def to_float_def and_then_def aux_segments_def)
  have p: "pgram_artists (default_args\<lparr> guide_to := Some (GSeq [Num 1, Num 1, Num (1 / 2)]) \<rparr>) = Inr []"
    by (rule pgram_none) (simp add: default_fields)
  show ?thesis
    using scene_parts [OF g p] by (simp add: icon_drawn default_fields)
qed

subsection \<open>Parallelogram\<close>

text \<open>
  Claim C2. For edge vectors \<open>v1\<close> and \<open>v2\<close> of three numbers and the suppression flag
  enabled (set to true or absent), the saved scene ends with the filled quadrilateral and
  one dashed segment for each of the edges origin to \<open>v1\<close>, \<open>v1\<close> to \<open>v1 + v2\<close>,
  \<open>v1 + v2\<close> to \<open>v2\<close>, \<open>v2\<close> to origin, in this order, except the edges that join the
  origin and one of the unit axis points \<open>(1,0,0)\<close>, \<open>(0,1,0)\<close>, \<open>(0,0,1)\<close>; so an edge
  between two points other than the origin is always stroked. For the variant with
  \<open>v1 = (1,0,0)\<close> and \<open>v2 = (0,0,1)\<close> the two edges at the origin are not stroked and the
  two other edges are.
\<close>

theorem pgram_edge_suppression:
  "(guide_artists a = Inr gs \<and> parallelogram a = Some pg \<and>
    v1 pg = Some [Num a0, Num a1, Num a2] \<and> v2 pg = Some [Num d0, Num d1, Num d2] \<and>
    skip_axis_edges pg \<noteq> Some False \<longrightarrow>
    drawn (create_3d_axis_icon (\<lambda>q. True) p f a d) =
      Some (axis_artists (normal_axis a) (dim_alpha a) @ gs @
            Poly3D [(0, 0, 0), (a0, a1, a2), (a0 + d0, a1 + d1, a2 + d2), (d0, d1, d2)]
              (dict_get (fill_color pg) ''#fff6b3'') (dict_get (fill_alpha pg) (35 / 100))
            # map (\<lambda>(p, q). Plot p q (dict_get (edge_color pg) ''#b8860b'')
                                    (dict_get (edge_alpha pg) (6 / 10))
                                    (dict_get (edge_lw pg) (22 / 10))
                                    (dict_get (edge_style pg) ''--''))
                (filter (\<lambda>(p, q). \<not> (p = (0, 0, 0) \<and> q \<in> {(1, 0, 0), (0, 1, 0), (0, 0, 1)} \<or>
                                    q = (0, 0, 0) \<and> p \<in> {(1, 0, 0), (0, 1, 0), (0, 0, 1)}))
                   [((0, 0, 0), (a0, a1, a2)),
                    ((a0, a1, a2), (a0 + d0, a1 + d1, a2 + d2)),
                    ((a0 + d0, a1 + d1, a2 + d2), (d0, d1, d2)),
                    ((d0, d1, d2), (0, 0, 0))]))) \<and>
   drawn (create_3d_axis_icon (\<lambda>q. True) p f
     (default_args\<lparr> size_px := (400, 400), normal_axis := PyStr ''all_dim'',
        dim_alpha := 35 / 100,
        parallelogram := Some
          \<lparr> v1 = Some [Num 1, Num 0, Num 0], v2 = Some [Num 0, Num 0, Num 1],
            fill_color = Some ''#fff6b3'', fill_alpha = Some (35 / 100),
            edge_color = Some ''#b8860b'', edge_style = Some ''--'', edge_lw = Some (22 / 10),
            edge_alpha = None, skip_axis_edges = Some True \<rparr> \<rparr>) d) =
     Some (axis_artists (PyStr ''all_dim'') (35 / 100) @
           [Poly3D [(0, 0, 0), (1, 0, 0), (1, 0, 1), (0, 0, 1)] ''#fff6b3'' (35 / 100),
            Plot (1, 0, 0) (1, 0, 1) ''#b8860b'' (6 / 10) (22 / 10) ''--'',
            Plot (1, 0, 1) (0, 0, 1) ''#b8860b'' (6 / 10) (22 / 10) ''--''])"
proof (intro conjI impI)
  assume h: "guide_artists a = Inr gs \<and> parallelogram a = Some pg \<and>
    v1 pg = Some [Num a0, Num a1, Num a2] \<and> v2 pg = Some [Num d0, Num d1, Num d2] \<and>
    skip_axis_edges pg \<noteq> Some False"
  note 1 = h [THEN conjunct1]
  note 2 = h [THEN conjunct2, THEN conjunct1]
  note 3 = h [THEN conjunct2, THEN conjunct2, THEN conjunct1]
  note 4 = h [THEN conjunct2, THEN conjunct2, THEN conjunct2, THEN conjunct1]
  note 5 = h [THEN conjunct2, THEN conjunct2, THEN conjunct2, THEN conjunct2]
  show "drawn (create_3d_axis_icon (\<lambda>q. True) p f a d) =
      Some (axis_artists (normal_axis a) (dim_alpha a) @ gs @
            Poly3D [(0, 0, 0), (a0, a1, a2), (a0 + d0, a1 + d1, a2 + d2), (d0, d1, d2)]
              (dict_get (fill_color pg) ''#fff6b3'') (dict_get (fill_alpha pg) (35 / 100))
            # map (\<lambda>(p, q). Plot p q (dict_get (edge_color pg) ''#b8860b'')
                                    (dict_get (edge_alpha pg) (6 / 10))
                                    (dict_get (edge_lw pg) (22 / 10))
                                    (dict_get (edge_style pg) ''--''))
                (filter (\<lambda>(p, q). \<not> (p = (0, 0, 0) \<and> q \<in> {(1, 0, 0), (0, 1, 0), (0, 0, 1)} \<or>
                                    q = (0, 0, 0) \<and> p \<in> {(1, 0, 0), (0, 1, 0), (0, 0, 1)}))
                   [((0, 0, 0), (a0, a1, a2)),
                    ((a0, a1, a2), (a0 + d0, a1 + d1, a2 + d2)),
                    ((a0 + d0, a1 + d1, a2 + d2), (d0, d1, d2)),
                    ((d0, d1, d2), (0, 0, 0))]))"
    by (rule pgram_general [OF 1 2 3 4 5])
next
  define pg where "pg =
          \<lparr> v1 = Some [Num 1, Num 0, Num 0], v2 = Some [Num 0, Num 0, Num 1],
            fill_color = Some ''#fff6b3'', fill_alpha = Some (35 / 100),
            edge_color = Some ''#b8860b'', edge_style = Some ''--'', edge_lw = Some (22 / 10),
            edge_alpha = None, skip_axis_edges = Some True \<rparr>"
  define a where "a = default_args\<lparr> size_px := (400, 400), normal_axis := PyStr ''all_dim'',
        dim_alpha := 35 / 100, parallelogram := Some pg \<rparr>"
  have 1: "guide_artists a = Inr []"
    by (rule guide_none) (simp add: a_def default_fields)
  have 2: "parallelogram a = Some pg" by (simp add: a_def)
  have 3: "v1 pg = Some [Num 1, Num 0, Num 0]" by (simp add: pg_def)
  have 4: "v2 pg = Some [Num 0, Num 0, Num 1]" by (simp add: pg_def)
  have 5: "skip_axis_edges pg \<noteq> Some False" by (simp add: pg_def)
  have "drawn (create_3d_axis_icon (\<lambda>q. True) p f a d) =
     Some (axis_artists (PyStr ''all_dim'') (35 / 100) @
           [Poly3D [(0, 0, 0), (1, 0, 0), (1, 0, 1), (0, 0, 1)] ''#fff6b3'' (35 / 100),
            Plot (1, 0, 0) (1, 0, 1) ''#b8860b'' (6 / 10) (22 / 10) ''--'',
            Plot (1, 0, 1) (0, 0, 1) ''#b8860b'' (6 / 10) (22 / 10) ''--''])"
    unfolding pgram_general [OF 1 2 3 4 5]
    by (simp add: a_def pg_def dict_get_def)
  then show "drawn (create_3d_axis_icon (\<lambda>q. True) p f
     (default_args\<lparr> size_px := (400, 400), normal_axis := PyStr ''all_dim'',
        dim_alpha := 35 / 100,
        parallelogram := Some
          \<lparr> v1 = Some [Num 1, Num 0, Num 0], v2 = Some [Num 0, Num 0, Num 1],
            fill_color = Some ''#fff6b3'', fill_alpha = Some (35 / 100),
            edge_color = Some ''#b8860b'', edge_style = Some ''--'', edge_lw = Some (22 / 10),
            edge_alpha = None, skip_axis_edges = Some True \<rparr> \<rparr>) d) =
     Some (axis_artists (PyStr ''all_dim'') (35 / 100) @
           [Poly3D [(0, 0, 0), (1, 0, 0), (1, 0, 1), (0, 0, 1)] ''#fff6b3'' (35 / 100),
            Plot (1, 0, 0) (1, 0, 1) ''#b8860b'' (6 / 10) (22 / 10) ''--'',
            Plot (1, 0, 1) (0, 0, 1) ''#b8860b'' (6 / 10) (22 / 10) ''--''])"
    unfolding a_def pg_def .
qed

theorem pgram_edge_suppression_witness:
  "drawn (create_3d_axis_icon (\<lambda>q. True) ''icon.png'' ''png''
     (default_args\<lparr> parallelogram := Some
          \<lparr> v1 = Some [Num 0, Num 1, Num 1], v2 = Some [Num 1, Num 0, Num 0],
            fill_color = None, fill_alpha = None, edge_color = None, edge_style = None,
            edge_lw = None, edge_alpha = None, skip_axis_edges = None \<rparr> \<rparr>) []) =
     Some (axis_artists PyNone (35 / 100) @
           [Poly3D [(0, 0, 0), (0, 1, 1), (1, 1, 1), (1, 0, 0)] ''#fff6b3'' (35 / 100),
            Plot (0, 0, 0) (0, 1, 1) ''#b8860b'' (6 / 10) (22 / 10) ''--'',
            Plot (0, 1, 1) (1, 1, 1) ''#b8860b'' (6 / 10) (22 / 10) ''--'',
            Plot (1, 1, 1) (1, 0, 0) ''#b8860b'' (6 / 10) (22 / 10) ''--''])"
proof -
  define pg where "pg =
          \<lparr> v1 = Some [Num 0, Num 1, Num 1], v2 = Some [Num 1, Num 0, Num 0],
            fill_color = None, fill_alpha = None, edge_color = None, edge_style = None,
            edge_lw = None :: real option, edge_alpha = None, skip_axis_edges = None \<rparr>"
  define a where "a = default_args\<lparr> parallelogram := Some pg \<rparr>"
  have h: "guide_artists a = Inr [] \<and> parallelogram a = Some pg \<and>
    v1 pg = Some [Num 0, Num 1, Num 1] \<and> v2 pg = Some [Num 1, Num 0, Num 0] \<and>
    skip_axis_edges pg \<noteq> Some False"
    by (simp add: a_def pg_def guide_none default_fields)
  have "drawn (create_3d_axis_icon (\<lambda>q. True) ''icon.png'' ''png'' a []) =
     Some (axis_artists PyNone (35 / 100) @
           [Poly3D [(0, 0, 0), (0, 1, 1), (1, 1, 1), (1, 0, 0)] ''#fff6b3'' (35 / 100),
            Plot (0, 0, 0) (0, 1, 1) ''#b8860b'' (6 / 10) (22 / 10) ''--'',
            Plot (0, 1, 1) (1, 1, 1) ''#b8860b'' (6 / 10) (22 / 10) ''--'',
            Plot (1, 1, 1) (1, 0, 0) ''#b8860b'' (6 / 10) (22 / 10) ''--''])"
    unfolding pgram_edge_suppression [THEN conjunct1, rule_format, OF h]
    by (simp add: a_def pg_def dict_get_def default_fields)
  then show ?thesis unfolding a_def pg_def .
qed

text \<open>
  Claim C7. For edge vectors \<open>v1\<close> and \<open>v2\<close> of three numbers the saved scene holds
  exactly one polygon, with the vertices origin, \<open>v1\<close>, \<open>v1 + v2\<close>, \<open>v2\<close> in this order.
\<close>

theorem pgram_vertices:
  assumes "guide_artists a = Inr gs" and "parallelogram a = Some pg"
    and "v1 pg = Some [Num a0, Num a1, Num a2]" and "v2 pg = Some [Num d0, Num d1, Num d2]"
  shows "\<exists>sc. drawn (create_3d_axis_icon (\<lambda>q. True) p f a d) = Some sc \<and>
           polygons sc = [[(0, 0, 0), (a0, a1, a2), (a0 + d0, a1 + d1, a2 + d2), (d0, d1, d2)]]"
proof -
  let ?ps = "Poly3D [(0, 0, 0), (a0, a1, a2), (a0 + d0, a1 + d1, a2 + d2), (d0, d1, d2)]
            (dict_get (fill_color pg) ''#fff6b3'') (dict_get (fill_alpha pg) (35 / 100))
          # map (\<lambda>(p, q). Plot p q (dict_get (edge_color pg) ''#b8860b'')
                                  (dict_get (edge_alpha pg) (6 / 10))
                                  (dict_get (edge_lw pg) (22 / 10))
                                  (dict_get (edge_style pg) ''--''))
              (stroked_edges (dict_get (skip_axis_edges pg) True) (a0, a1, a2) (d0, d1, d2))"
  let ?sc = "axis_artists (normal_axis a) (dim_alpha a) @ gs @ ?ps"
  have s: "scene_of a = Inr ?sc"
    by (rule scene_parts [OF assms(1) pgram_artists_nums [OF assms(2,3,4)]])
  have d: "drawn (create_3d_axis_icon (\<lambda>q. True) p f a d) = Some ?sc"
    by (rule icon_drawn [OF s])
  have "polygons ?sc = [[(0, 0, 0), (a0, a1, a2), (a0 + d0, a1 + d1, a2 + d2), (d0, d1, d2)]]"
    by (simp only: polygons_append polygons_axes polygons_guide [OF assms(1)] polygons_Cons_Poly
        polygons_Plots append_Nil)
  with d show ?thesis by (intro exI [where x = ?sc] conjI)
qed

theorem pgram_vertices_witness:
  "\<exists>sc. drawn (create_3d_axis_icon (\<lambda>q. True) ''icon.svg'' ''svg''
            (default_args\<lparr> guide_to := Some (GSeq [Num 1, Num 1, Num 0]),
               parallelogram := Some
                 \<lparr> v1 = Some [Num 1, Num 1, Num 0], v2 = Some [Num 0, Num 0, Num 1],
                   fill_color = None, fill_alpha = None, edge_color = None, edge_style = None,
                   edge_lw = None, edge_alpha = None, skip_axis_edges = Some False \<rparr> \<rparr>) []) =
          Some sc \<and>
        polygons sc = [[(0, 0, 0), (1, 1, 0), (1, 1, 1), (0, 0, 1)]]"
proof -
  define pg where "pg =
                 \<lparr> v1 = Some [Num 1, Num 1, Num 0], v2 = Some [Num 0, Num 0, Num 1],
                   fill_color = None :: string option, fill_alpha = None :: real option,
                   edge_color = None :: string option, edge_style = None :: string option,
                   edge_lw = None :: real option, edge_alpha = None :: real option,
                   skip_axis_edges = Some False \<rparr>"
  define a where "a = default_args\<lparr> guide_to := Some (GSeq [Num 1, Num 1, Num 0]),
               parallelogram := Some pg \<rparr>"
  have g: "guide_artists a =
     Inr (Plot (0, 0, 0) (1, 1, 0) (guide_color a) (guide_alpha_main a) (guide_lw_main a)
               (guide_style_main a)
          # map (\<lambda>(s, e). Plot s e (guide_color a) (guide_alpha_aux a) (guide_lw_aux a)
                                  (guide_style_aux a))
                (aux_segments (1, 1, 0))
          @ map (\<lambda>(s, e). Plot s e (guide_color a) (guide_alpha_aux a) (guide_lw_aux a)
                                  (guide_style_aux a))
                (case extra_guides a of None \<Rightarrow> [] | Some es \<Rightarrow> es))"
    by (rule guide_artists_nums) (simp add: a_def)
  have 2: "parallelogram a = Some pg" by (simp add: a_def)
  have 3: "v1 pg = Some [Num 1, Num 1, Num 0]" by (simp add: pg_def)
  have 4: "v2 pg = Some [Num 0, Num 0, Num 1]" by (simp add: pg_def)
  from pgram_vertices [OF g 2 3 4, of "''icon.svg''" "''svg''" "[]"]
  have "\<exists>sc. drawn (create_3d_axis_icon (\<lambda>q. True) ''icon.svg'' ''svg'' a []) = Some sc \<and>
        polygons sc = [[(0, 0, 0), (1, 1, 0), (1, 1, 1), (0, 0, 1)]]"
    by simp
  then show ?thesis unfolding a_def pg_def .
qed

subsection \<open>The batch helper\<close>

text \<open>
  Claim C8. For a base name that does not contain \<open>.png\<close>, as every base name of the
  script, the batch helper runs the renderer twice on the same arguments: it fails with
  the error of the scene if there is one, else with the write error of the raster or of
  the vector file, and otherwise adds exactly the raster file \<open>base.png\<close> and the vector
  file \<open>base.svg\<close>, both holding the same scene.
\<close>

theorem save_both_pair:
  assumes "\<not> sublist ''.png'' base_name"
  shows "save_both writable base_name kwargs d =
     (case scene_of kwargs of
        Inl e \<Rightarrow> Inl e
      | Inr scene \<Rightarrow>
          if \<not> writable (base_name @ ''.png'') then Inl (WriteError (base_name @ ''.png''))
          else if \<not> writable (base_name @ ''.svg'') then Inl (WriteError (base_name @ ''.svg''))
          else Inr ((base_name @ ''.svg'', IconFile ''svg'' None scene) #
                    (base_name @ ''.png'', IconFile ''png'' (Some (dpi kwargs)) scene) # d))"
  using assms by (rule save_both_result)

theorem save_both_pair_witness:
  "\<not> sublist ''.png'' ''axis_standard'' \<and>
   save_both (\<lambda>p. True) ''axis_standard'' default_args [] =
   Inr [(''axis_standard.svg'', IconFile ''svg'' None (axis_artists PyNone (35 / 100))),
        (''axis_standard.png'', IconFile ''png'' (Some 150) (axis_artists PyNone (35 / 100)))]"
proof -
  have n: "\<not> sublist ''.png'' ''axis_standard''" by (simp add: sublist_code)
  show ?thesis
    using n save_both_pair [OF n, of "\<lambda>p. True" default_args "[]"]
    by (simp add: scene_of_default dpi_default)
qed

subsection \<open>The reference grid\<close>

text \<open>
  Claim C9. When both composite files can be written, grid composition writes one raster
  and one vector composite with the same sixteen cells and the light-gray figure
  background \<open>#eeeeee\<close>. The cell in row \<open>r\<close> and column \<open>c\<close> of the 4-by-4 grid is the
  one numbered \<open>4r + c\<close>: it has the same background and, for the first thirteen numbers,
  shows the raster file of the name with that number in the list of 13 names; the cells
  numbered 13, 14 and 15 show nothing.
\<close>

theorem grid_layout:
  assumes "writable ''axis_reference_grid.png''" and "writable ''axis_reference_grid.svg''"
  shows "\<exists>cells.
     create_reference_grid writable d =
       Inr ((''axis_reference_grid.svg'', GridFile ''svg'' ''#eeeeee'' cells) #
            (''axis_reference_grid.png'', GridFile ''png'' ''#eeeeee'' cells) # d) \<and>
     length cells = 16 \<and> length names = 13 \<and>
     (\<forall>r < 4. \<forall>c < 4.
        cells ! (4 * r + c) =
          Cell r c ''#eeeeee''
            (if 4 * r + c < 13 then imread d (names ! (4 * r + c) @ ''.png'') else None))"
proof (intro exI conjI)
  show "create_reference_grid writable d =
       Inr ((''axis_reference_grid.svg'', GridFile ''svg'' ''#eeeeee'' (grid_cells d)) #
            (''axis_reference_grid.png'', GridFile ''png'' ''#eeeeee'' (grid_cells d)) # d)"
    using assms by (rule grid_ok)
  show "length (grid_cells d) = 16" by (simp add: grid_cells_eq)
  show "length names = 13" by (simp add: names_nth)
  show "\<forall>r < 4. \<forall>c < 4.
        grid_cells d ! (4 * r + c) =
          Cell r c ''#eeeeee''
            (if 4 * r + c < 13 then imread d (names ! (4 * r + c) @ ''.png'') else None)"
  proof (intro allI impI)
    fix r c :: nat assume "r < 4" "c < 4"
    then have "r = 0 \<or> r = 1 \<or> r = 2 \<or> r = 3" "c = 0 \<or> c = 1 \<or> c = 2 \<or> c = 3" by arith+
    then show "grid_cells d ! (4 * r + c) =
          Cell r c ''#eeeeee''
            (if 4 * r + c < 13 then imread d (names ! (4 * r + c) @ ''.png'') else None)"
      by (auto simp: grid_cells_eq names_def)
  qed
qed

theorem grid_layout_witness:
  "\<exists>cells.
     create_reference_grid (\<lambda>p. True) [] =
       Inr [(''axis_reference_grid.svg'', GridFile ''svg'' ''#eeeeee'' cells),
            (''axis_reference_grid.png'', GridFile ''png'' ''#eeeeee'' cells)] \<and>
     length cells = 16 \<and>
     cells ! 6 = Cell 1 2 ''#eeeeee'' (imread [] (names ! 6 @ ''.png'')) \<and>
     cells ! 13 = Cell 3 1 ''#eeeeee'' None"
proof -
  from grid_layout [of "\<lambda>p. True" "[]"] obtain cells where
    c: "create_reference_grid (\<lambda>p. True) [] =
       Inr [(''axis_reference_grid.svg'', GridFile ''svg'' ''#eeeeee'' cells),
            (''axis_reference_grid.png'', GridFile ''png'' ''#eeeeee'' cells)]"
    and l: "length cells = 16"
    and a: "\<forall>r < 4. \<forall>c < 4.
        cells ! (4 * r + c) =
          Cell r c ''#eeeeee''
            (if 4 * r + c < 13 then imread [] (names ! (4 * r + c) @ ''.png'') else None)"
    by auto
  from a [rule_format, of 1 2] have c6: "cells ! 6 = Cell 1 2 ''#eeeeee'' (imread [] (names ! 6 @ ''.png''))"
    by simp
  from a [rule_format, of 3 1] have c13: "cells ! 13 = Cell 3 1 ''#eeeeee'' None"
    by simp
  from c l c6 c13 show ?thesis by blast
qed

text \<open>
  Claim C6. Whatever files are present, when both composite files can be written grid
  composition returns the composite with all sixteen cells, and the cell of each of the 13
  names whose raster file is missing is blank.
\<close>

theorem grid_missing_sources:
  assumes "writable ''axis_reference_grid.png''" and "writable ''axis_reference_grid.svg''"
  shows "\<exists>cells.
     create_reference_grid writable d =
       Inr ((''axis_reference_grid.svg'', GridFile ''svg'' ''#eeeeee'' cells) #
            (''axis_reference_grid.png'', GridFile ''png'' ''#eeeeee'' cells) # d) \<and>
     length cells = 16 \<and>
     (\<forall>i < 13. map_of d (names ! i @ ''.png'') = None \<longrightarrow>
        cells ! i = Cell (i div 4) (i mod 4) ''#eeeeee'' None)"
proof (intro exI conjI)
  show "create_reference_grid writable d =
       Inr ((''axis_reference_grid.svg'', GridFile ''svg'' ''#eeeeee'' (grid_cells d)) #
            (''axis_reference_grid.png'', GridFile ''png'' ''#eeeeee'' (grid_cells d)) # d)"
    using assms by (rule grid_ok)
  show "length (grid_cells d) = 16" by (simp add: grid_cells_eq)
  show "\<forall>i < 13. map_of d (names ! i @ ''.png'') = None \<longrightarrow>
        grid_cells d ! i = Cell (i div 4) (i mod 4) ''#eeeeee'' None"
  proof (intro allI impI)
    fix i :: nat assume "i < 13" and m: "map_of d (names ! i @ ''.png'') = None"
    then have "i = 0 \<or> i = 1 \<or> i = 2 \<or> i = 3 \<or> i = 4 \<or> i = 5 \<or> i = 6 \<or> i = 7 \<or>
               i = 8 \<or> i = 9 \<or> i = 10 \<or> i = 11 \<or> i = 12" by arith
    with m show "grid_cells d ! i = Cell (i div 4) (i mod 4) ''#eeeeee'' None"
      by (auto simp: grid_cells_eq names_def imread_def)
  qed
qed

theorem grid_missing_sources_witness:
  "\<exists>cells.
     create_reference_grid (\<lambda>p. True) [(''axis_focus_x.png'', IconFile ''png'' (Some 150) [])] =
       Inr [(''axis_reference_grid.svg'', GridFile ''svg'' ''#eeeeee'' cells),
            (''axis_reference_grid.png'', GridFile ''png'' ''#eeeeee'' cells),
            (''axis_focus_x.png'', IconFile ''png'' (Some 150) [])] \<and>
     length cells = 16 \<and>
     map_of [(''axis_focus_x.png'', IconFile ''png'' (Some 150) [])] (names ! 5 @ ''.png'') = None \<and>
     cells ! 5 = Cell 1 1 ''#eeeeee'' None"
proof -
  have m: "map_of [(''axis_focus_x.png'', IconFile ''png'' (Some 150) [])] (names ! 5 @ ''.png'') = None"
    by (simp add: names_def)
  from grid_missing_sources [of "\<lambda>p. True" "[(''axis_focus_x.png'', IconFile ''png'' (Some 150) [])]"]
  obtain cells where
    c: "create_reference_grid (\<lambda>p. True) [(''axis_focus_x.png'', IconFile ''png'' (Some 150) [])] =
       Inr [(''axis_reference_grid.svg'', GridFile ''svg'' ''#eeeeee'' cells),
            (''axis_reference_grid.png'', GridFile ''png'' ''#eeeeee'' cells),
            (''axis_focus_x.png'', IconFile ''png'' (Some 150) [])]"
    and l: "length cells = 16"
    and a: "\<forall>i < 13. map_of [(''axis_focus_x.png'', IconFile ''png'' (Some 150) [])]
                (names ! i @ ''.png'') = None \<longrightarrow>
        cells ! i = Cell (i div 4) (i mod 4) ''#eeeeee'' None"
    by auto
  have "(5::nat) < 13" by simp
  with a m have "cells ! 5 = Cell (5 div 4) (5 mod 4) ''#eeeeee'' None" by blast
  then have "cells ! 5 = Cell 1 1 ''#eeeeee'' None" by simp
  with c l m show ?thesis by blast
qed

subsection \<open>The full generation sequence\<close>

text \<open>
  Claim C4, amended. When every path can be written, the program succeeds on any
  directory and writes, in this order: the raster file \<open>3d_axis_icon.png\<close> of its first
  statement, which has no vector file beside it; the raster and vector pair of the
  standard and of the high-resolution variant; the pairs of the 13 named variants \<open>vs\<close>
  (the 13 names of the reference grid); and the composite pair. These are 33 files, and no
  two of the written paths are equal.
\<close>

theorem main_outputs:
  assumes "vs = [''axis_focus_x'', ''axis_focus_y'', ''axis_focus_z'',
                 ''axis_dim_011'', ''axis_dim_101'', ''axis_dim_110'',
                 ''axis_plane_001_010'', ''axis_plane_010_100'', ''axis_plane_100_001'',
                 ''axis_plane_011_100'', ''axis_plane_101_010'', ''axis_plane_110_001'',
                 ''axis_diag_111'']"
  shows "\<exists>new. main (\<lambda>p. True) d = Inr (new @ d) \<and>
           map fst (rev new) =
             ''3d_axis_icon.png'' #
             concat (map (\<lambda>b. [b @ ''.png'', b @ ''.svg''])
                      ([''axis_standard'', ''axis_hires''] @ vs @ [''axis_reference_grid''])) \<and>
           length vs = 13 \<and> set vs = set names \<and>
           distinct (map fst new)"
proof -
  define ps where "ps =
     [''3d_axis_icon.png'',
      ''axis_standard.png'', ''axis_standard.svg'', ''axis_hires.png'', ''axis_hires.svg'',
      ''axis_focus_x.png'', ''axis_focus_x.svg'', ''axis_focus_y.png'', ''axis_focus_y.svg'',
      ''axis_focus_z.png'', ''axis_focus_z.svg'',
      ''axis_dim_011.png'', ''axis_dim_011.svg'', ''axis_dim_101.png'', ''axis_dim_101.svg'',
      ''axis_dim_110.png'', ''axis_dim_110.svg'',
      ''axis_plane_001_010.png'', ''axis_plane_001_010.svg'',
      ''axis_plane_010_100.png'', ''axis_plane_010_100.svg'',
      ''axis_plane_100_001.png'', ''axis_plane_100_001.svg'',
      ''axis_plane_011_100.png'', ''axis_plane_011_100.svg'',
      ''axis_plane_101_010.png'', ''axis_plane_101_010.svg'',
      ''axis_plane_110_001.png'', ''axis_plane_110_001.svg'',
      ''axis_diag_111.png'', ''axis_diag_111.svg'',
      ''axis_reference_grid.png'', ''axis_reference_grid.svg'']"
  from main_all_writable have "\<exists>new. main (\<lambda>p. True) d = Inr (new @ d) \<and> map fst (rev new) = ps"
    unfolding ps_def .
  then obtain new where
    m: "main (\<lambda>p. True) d = Inr (new @ d)" and p: "map fst (rev new) = ps"
    by (elim exE conjE)
  have "distinct ps"
    unfolding ps_def by simp
  then have "distinct (rev (map fst new))"
    using p by (simp only: rev_map)
  then have d2: "distinct (map fst new)"
    by (simp only: distinct_rev)
  have e: "ps =
             ''3d_axis_icon.png'' #
             concat (map (\<lambda>b. [b @ ''.png'', b @ ''.svg''])
                      ([''axis_standard'', ''axis_hires''] @ vs @ [''axis_reference_grid'']))"
    unfolding ps_def assms by simp
  have l: "length vs = 13" unfolding assms by simp
  have "set vs \<subseteq> set names" unfolding assms names_def by simp
  moreover have "set names \<subseteq> set vs" unfolding assms names_def by simp
  ultimately have s: "set vs = set names" by (rule subset_antisym)
  show ?thesis
  proof (intro exI conjI)
    show "main (\<lambda>p. True) d = Inr (new @ d)" by (rule m)
    show "map fst (rev new) =
             ''3d_axis_icon.png'' #
             concat (map (\<lambda>b. [b @ ''.png'', b @ ''.svg''])
                      ([''axis_standard'', ''axis_hires''] @ vs @ [''axis_reference_grid'']))"
      using p e by (rule trans)
    show "length vs = 13" by (rule l)
    show "set vs = set names" by (rule s)
    show "distinct (map fst new)" by (rule d2)
  qed
qed

theorem main_outputs_witness:
  "\<exists>new. main (\<lambda>p. True) [] = Inr new \<and> length new = 33 \<and> distinct (map fst new) \<and>
         ''3d_axis_icon.png'' \<in> set (map fst new) \<and>
         ''3d_axis_icon.svg'' \<notin> set (map fst new) \<and>
         ''axis_diag_111.png'' \<in> set (map fst new) \<and>
         ''axis_diag_111.svg'' \<in> set (map fst new)"
proof -
  from main_outputs [OF refl, of "[]"] obtain new where
    m: "main (\<lambda>p. True) [] = Inr (new @ [])" and
    p: "map fst (rev new) =
             ''3d_axis_icon.png'' #
             concat (map (\<lambda>b. [b @ ''.png'', b @ ''.svg''])
                      ([''axis_standard'', ''axis_hires''] @
                       [''axis_focus_x'', ''axis_focus_y'', ''axis_focus_z'',
                        ''axis_dim_011'', ''axis_dim_101'', ''axis_dim_110'',
                        ''axis_plane_001_010'', ''axis_plane_010_100'', ''axis_plane_100_001'',
                        ''axis_plane_011_100'', ''axis_plane_101_010'', ''axis_plane_110_001'',
                        ''axis_diag_111''] @ [''axis_reference_grid'']))" and
    d: "distinct (map fst new)"
    by (elim exE conjE)
  have "length (map fst (rev new)) = 33" unfolding p by simp
  then have l: "length new = 33" by simp
  have s: "set (map fst new) = set (map fst (rev new))" by simp
  have i1: "''3d_axis_icon.png'' \<in> set (map fst new)" unfolding s p by simp
  have i2: "''3d_axis_icon.svg'' \<notin> set (map fst new)" unfolding s p by simp
  have i3: "''axis_diag_111.png'' \<in> set (map fst new)" unfolding s p by simp
  have i4: "''axis_diag_111.svg'' \<in> set (map fst new)" unfolding s p by simp
  from m have m': "main (\<lambda>p. True) [] = Inr new" by simp
  from m' l d i1 i2 i3 i4 show ?thesis by (intro exI [where x = new] conjI)
qed

text \<open>
  Started in an empty directory, the program leaves 33 files: the 16 pairs and, first,
  the raster file \<open>3d_axis_icon.png\<close>, which belongs to no pair.
\<close>

theorem main_writes_unpaired_raster:
  "written (main (\<lambda>p. True) []) =
     [''3d_axis_icon.png'',
      ''axis_standard.png'', ''axis_standard.svg'', ''axis_hires.png'', ''axis_hires.svg'',
      ''axis_focus_x.png'', ''axis_focus_x.svg'', ''axis_focus_y.png'', ''axis_focus_y.svg'',
      ''axis_focus_z.png'', ''axis_focus_z.svg'',
      ''axis_dim_011.png'', ''axis_dim_011.svg'', ''axis_dim_101.png'', ''axis_dim_101.svg'',
      ''axis_dim_110.png'', ''axis_dim_110.svg'',
      ''axis_plane_001_010.png'', ''axis_plane_001_010.svg'',
      ''axis_plane_010_100.png'', ''axis_plane_010_100.svg'',
      ''axis_plane_100_001.png'', ''axis_plane_100_001.svg'',
      ''axis_plane_011_100.png'', ''axis_plane_011_100.svg'',
      ''axis_plane_101_010.png'', ''axis_plane_101_010.svg'',
      ''axis_plane_110_001.png'', ''axis_plane_110_001.svg'',
      ''axis_diag_111.png'', ''axis_diag_111.svg'',
      ''axis_reference_grid.png'', ''axis_reference_grid.svg'']"
proof -
  from main_all_writable [of "[]"] obtain new where
    m: "main (\<lambda>p. True) [] = Inr (new @ [])" and
    p: "map fst (rev new) =
     [''3d_axis_icon.png'',
      ''axis_standard.png'', ''axis_standard.svg'', ''axis_hires.png'', ''axis_hires.svg'',
      ''axis_focus_x.png'', ''axis_focus_x.svg'', ''axis_focus_y.png'', ''axis_focus_y.svg'',
      ''axis_focus_z.png'', ''axis_focus_z.svg'',
      ''axis_dim_011.png'', ''axis_dim_011.svg'', ''axis_dim_101.png'', ''axis_dim_101.svg'',
      ''axis_dim_110.png'', ''axis_dim_110.svg'',
      ''axis_plane_001_010.png'', ''axis_plane_001_010.svg'',
      ''axis_plane_010_100.png'', ''axis_plane_010_100.svg'',
      ''axis_plane_100_001.png'', ''axis_plane_100_001.svg'',
      ''axis_plane_011_100.png'', ''axis_plane_011_100.svg'',
      ''axis_plane_101_010.png'', ''axis_plane_101_010.svg'',
      ''axis_plane_110_001.png'', ''axis_plane_110_001.svg'',
      ''axis_diag_111.png'', ''axis_diag_111.svg'',
      ''axis_reference_grid.png'', ''axis_reference_grid.svg'']"
    by (elim exE conjE)
  from m have "written (main (\<lambda>p. True) []) = rev (map fst new)"
    by (simp add: written_def)
  also have "\<dots> = map fst (rev new)" by (simp only: rev_map)
  finally show ?thesis by (simp only: p)
qed

subsection \<open>Errors\<close>

text \<open>
  Claim C5, amended. The renderer lets these failures escape to its caller: a coordinate
  of a three-element guide target that is not a number; an edge vector of the
  parallelogram with fewer than three components or with a component (among the first
  three) that is not a number; an output path, raster or vector, that cannot be written.
  The batch helper passes on the error of its first and of its second call; a run of
  statements ends with the error of the first statement that fails, whatever precedes and
  follows it; and the program ends with the write error of the first of its 33 output
  paths that cannot be written. A guide target that is not a sequence of exactly three
  elements is not such a failure: the icon is drawn with a main guide line from the origin
  to the origin.
\<close>

theorem unhandled_errors_propagate:
  "(guide_to a = Some (GSeq [gx, gy, gz]) \<and> NonNum \<in> set [gx, gy, gz] \<longrightarrow>
      create_3d_axis_icon writable p f a d = Inl BadNumber) \<and>
   (parallelogram a = Some pg \<and> (v1 pg = Some v \<or> v2 pg = Some v) \<and>
      (length v < 3 \<or> NonNum \<in> set (take 3 v)) \<longrightarrow>
      (\<exists>e. create_3d_axis_icon writable p f a d = Inl e)) \<and>
   (scene_of a = Inr sc \<and>
      \<not> writable (if lower f = ''svg'' then replace_str ''.png'' ''.svg'' p else p) \<longrightarrow>
      create_3d_axis_icon writable p f a d =
        Inl (WriteError (if lower f = ''svg'' then replace_str ''.png'' ''.svg'' p else p))) \<and>
   (create_3d_axis_icon writable (b @ ''.png'') ''png'' a d = Inl e \<longrightarrow>
      save_both writable b a d = Inl e) \<and>
   (create_3d_axis_icon writable (b @ ''.png'') ''png'' a d = Inr d1 \<and>
      create_3d_axis_icon writable (b @ ''.svg'') ''svg'' a d1 = Inl e \<longrightarrow>
      save_both writable b a d = Inl e) \<and>
   (run_all before d = Inr d1 \<and> step d1 = Inl e \<longrightarrow>
      run_all (before @ step # after) d = Inl e) \<and>
   (find (\<lambda>q. \<not> writable q)
        [''3d_axis_icon.png'',
         ''axis_standard.png'', ''axis_standard.svg'', ''axis_hires.png'', ''axis_hires.svg'',
         ''axis_focus_x.png'', ''axis_focus_x.svg'', ''axis_focus_y.png'', ''axis_focus_y.svg'',
         ''axis_focus_z.png'', ''axis_focus_z.svg'',
         ''axis_dim_011.png'', ''axis_dim_011.svg'', ''axis_dim_101.png'', ''axis_dim_101.svg'',
         ''axis_dim_110.png'', ''axis_dim_110.svg'',
         ''axis_plane_001_010.png'', ''axis_plane_001_010.svg'',
         ''axis_plane_010_100.png'', ''axis_plane_010_100.svg'',
         ''axis_plane_100_001.png'', ''axis_plane_100_001.svg'',
         ''axis_plane_011_100.png'', ''axis_plane_011_100.svg'',
         ''axis_plane_101_010.png'', ''axis_plane_101_010.svg'',
         ''axis_plane_110_001.png'', ''axis_plane_110_001.svg'',
         ''axis_diag_111.png'', ''axis_diag_111.svg'',
         ''axis_reference_grid.png'', ''axis_reference_grid.svg''] = Some q \<longrightarrow>
      main writable d = Inl (WriteError q)) \<and>
   (guide_to a = Some g \<and> (\<forall>x y z. g \<noteq> GSeq [x, y, z]) \<and> pgram_artists a = Inr ps \<longrightarrow>
      drawn (create_3d_axis_icon (\<lambda>q. True) p f a d) =
        Some (axis_artists (normal_axis a) (dim_alpha a)
              @ Plot (0, 0, 0) (0, 0, 0) (guide_color a) (guide_alpha_main a) (guide_lw_main a)
                     (guide_style_main a)
              # map (\<lambda>(s, e). Plot s e (guide_color a) (guide_alpha_aux a) (guide_lw_aux a)
                                      (guide_style_aux a))
                  (case extra_guides a of None \<Rightarrow> [] | Some es \<Rightarrow> es)
              @ ps))"
proof (intro conjI impI)
  assume hyp: "guide_to a = Some (GSeq [gx, gy, gz]) \<and> NonNum \<in> set [gx, gy, gz]"
  then have "guide_artists a = Inl BadNumber" by (simp only: guide_bad)
  then have "scene_of a = Inl BadNumber" by (simp add: scene_of_def and_then_def)
  then show "create_3d_axis_icon writable p f a d = Inl BadNumber" by (rule icon_scene_error)
next
  assume hyp: "parallelogram a = Some pg \<and> (v1 pg = Some v \<or> v2 pg = Some v) \<and>
      (length v < 3 \<or> NonNum \<in> set (take 3 v))"
  then obtain e where "pgram_artists a = Inl e" using pgram_bad by blast
  then have "\<exists>e'. scene_of a = Inl e'"
    by (cases "guide_artists a") (simp_all add: scene_of_def and_then_def)
  then obtain e' where "scene_of a = Inl e'" ..
  then have "create_3d_axis_icon writable p f a d = Inl e'" by (rule icon_scene_error)
  then show "\<exists>e. create_3d_axis_icon writable p f a d = Inl e" by (rule exI)
next
  assume hyp: "scene_of a = Inr sc \<and>
      \<not> writable (if lower f = ''svg'' then replace_str ''.png'' ''.svg'' p else p)"
  then show "create_3d_axis_icon writable p f a d =
        Inl (WriteError (if lower f = ''svg'' then replace_str ''.png'' ''.svg'' p else p))"
    by (cases "lower f = ''svg''")
       (simp_all add: create_3d_axis_icon_def and_then_def savefig_def)
next
  assume hyp: "create_3d_axis_icon writable (b @ ''.png'') ''png'' a d = Inl e"
  then show "save_both writable b a d = Inl e"
    by (simp add: save_both_def and_then_def)
next
  assume hyp: "create_3d_axis_icon writable (b @ ''.png'') ''png'' a d = Inr d1 \<and>
      create_3d_axis_icon writable (b @ ''.svg'') ''svg'' a d1 = Inl e"
  then show "save_both writable b a d = Inl e"
    by (simp add: save_both_def and_then_def)
next
  assume hyp: "run_all before d = Inr d1 \<and> step d1 = Inl e"
  then show "run_all (before @ step # after) d = Inl e"
    by (simp add: run_all_append and_then_def)
next
  assume hyp: "find (\<lambda>q. \<not> writable q)
        [''3d_axis_icon.png'',
         ''axis_standard.png'', ''axis_standard.svg'', ''axis_hires.png'', ''axis_hires.svg'',
         ''axis_focus_x.png'', ''axis_focus_x.svg'', ''axis_focus_y.png'', ''axis_focus_y.svg'',
         ''axis_focus_z.png'', ''axis_focus_z.svg'',
         ''axis_dim_011.png'', ''axis_dim_011.svg'', ''axis_dim_101.png'', ''axis_dim_101.svg'',
         ''axis_dim_110.png'', ''axis_dim_110.svg'',
         ''axis_plane_001_010.png'', ''axis_plane_001_010.svg'',
         ''axis_plane_010_100.png'', ''axis_plane_010_100.svg'',
         ''axis_plane_100_001.png'', ''axis_plane_100_001.svg'',
         ''axis_plane_011_100.png'', ''axis_plane_011_100.svg'',
         ''axis_plane_101_010.png'', ''axis_plane_101_010.svg'',
         ''axis_plane_110_001.png'', ''axis_plane_110_001.svg'',
         ''axis_diag_111.png'', ''axis_diag_111.svg'',
         ''axis_reference_grid.png'', ''axis_reference_grid.svg''] = Some q"
  from runs_main [of writable] have "case find (\<lambda>q. \<not> writable q)
        [''3d_axis_icon.png'',
         ''axis_standard.png'', ''axis_standard.svg'', ''axis_hires.png'', ''axis_hires.svg'',
         ''axis_focus_x.png'', ''axis_focus_x.svg'', ''axis_focus_y.png'', ''axis_focus_y.svg'',
         ''axis_focus_z.png'', ''axis_focus_z.svg'',
         ''axis_dim_011.png'', ''axis_dim_011.svg'', ''axis_dim_101.png'', ''axis_dim_101.svg'',
         ''axis_dim_110.png'', ''axis_dim_110.svg'',
         ''axis_plane_001_010.png'', ''axis_plane_001_010.svg'',
         ''axis_plane_010_100.png'', ''axis_plane_010_100.svg'',
         ''axis_plane_100_001.png'', ''axis_plane_100_001.svg'',
         ''axis_plane_011_100.png'', ''axis_plane_011_100.svg'',
         ''axis_plane_101_010.png'', ''axis_plane_101_010.svg'',
         ''axis_plane_110_001.png'', ''axis_plane_110_001.svg'',
         ''axis_diag_111.png'', ''axis_diag_111.svg'',
         ''axis_reference_grid.png'', ''axis_reference_grid.svg''] of
        None \<Rightarrow> \<exists>new. main writable d = Inr (new @ d) \<and> map fst (rev new) =
        [''3d_axis_icon.png'',
         ''axis_standard.png'', ''axis_standard.svg'', ''axis_hires.png'', ''axis_hires.svg'',
         ''axis_focus_x.png'', ''axis_focus_x.svg'', ''axis_focus_y.png'', ''axis_focus_y.svg'',
         ''axis_focus_z.png'', ''axis_focus_z.svg'',
         ''axis_dim_011.png'', ''axis_dim_011.svg'', ''axis_dim_101.png'', ''axis_dim_101.svg'',
         ''axis_dim_110.png'', ''axis_dim_110.svg'',
         ''axis_plane_001_010.png'', ''axis_plane_001_010.svg'',
         ''axis_plane_010_100.png'', ''axis_plane_010_100.svg'',
         ''axis_plane_100_001.png'', ''axis_plane_100_001.svg'',
         ''axis_plane_011_100.png'', ''axis_plane_011_100.svg'',
         ''axis_plane_101_010.png'', ''axis_plane_101_010.svg'',
         ''axis_plane_110_001.png'', ''axis_plane_110_001.svg'',
         ''axis_diag_111.png'', ''axis_diag_111.svg'',
         ''axis_reference_grid.png'', ''axis_reference_grid.svg'']
      | Some q \<Rightarrow> main writable d = Inl (WriteError q)"
    unfolding runs_def by (rule spec)
  then show "main writable d = Inl (WriteError q)"
    by (simp only: hyp option.case)
next
  assume hyp: "guide_to a = Some g \<and> (\<forall>x y z. g \<noteq> GSeq [x, y, z]) \<and> pgram_artists a = Inr ps"
  note g = hyp [THEN conjunct1]
  note n = hyp [THEN conjunct2, THEN conjunct1]
  note pp = hyp [THEN conjunct2, THEN conjunct2]
  show "drawn (create_3d_axis_icon (\<lambda>q. True) p f a d) =
        Some (axis_artists (normal_axis a) (dim_alpha a)
              @ Plot (0, 0, 0) (0, 0, 0) (guide_color a) (guide_alpha_main a) (guide_lw_main a)
                     (guide_style_main a)
              # map (\<lambda>(s, e). Plot s e (guide_color a) (guide_alpha_aux a) (guide_lw_aux a)
                                      (guide_style_aux a))
                  (case extra_guides a of None \<Rightarrow> [] | Some es \<Rightarrow> es)
              @ ps)"
    using scene_parts [OF guide_artists_malformed [OF g n] pp]
    by (simp only: icon_drawn append_Cons append_assoc)
qed

theorem unhandled_errors_propagate_witness:
  "create_3d_axis_icon (\<lambda>p. True) ''icon.png'' ''png''
     (default_args\<lparr> guide_to := Some (GSeq [Num 1, NonNum, Num 0]) \<rparr>) [] = Inl BadNumber \<and>
   (\<exists>e. create_3d_axis_icon (\<lambda>p. True) ''icon.png'' ''png''
     (default_args\<lparr> parallelogram := Some
        \<lparr> v1 = Some [Num 1, Num 0], v2 = None, fill_color = None, fill_alpha = None, edge_color = None, edge_style = None, edge_lw = None, edge_alpha = None, skip_axis_edges = None \<rparr> \<rparr>) [] = Inl e) \<and>
   create_3d_axis_icon (\<lambda>p. False) ''icon.png'' ''png'' default_args [] =
     Inl (WriteError ''icon.png'') \<and>
   create_3d_axis_icon (\<lambda>p. p = ''icon.png'') ''icon.png'' ''svg'' default_args [] =
     Inl (WriteError ''icon.svg'') \<and>
   save_both (\<lambda>p. False) ''icon'' default_args [] = Inl (WriteError ''icon.png'') \<and>
   save_both (\<lambda>p. p = ''icon.png'') ''icon'' default_args [] = Inl (WriteError ''icon.svg'') \<and>
   run_all [create_3d_axis_icon (\<lambda>p. p = ''a.png'') ''a.png'' ''png'' default_args,
            create_3d_axis_icon (\<lambda>p. p = ''a.png'') ''b.png'' ''png'' default_args,
            create_reference_grid (\<lambda>p. p = ''a.png'')] [] = Inl (WriteError ''b.png'') \<and>
   main (\<lambda>p. p \<noteq> ''axis_dim_101.svg'') [] = Inl (WriteError ''axis_dim_101.svg'') \<and>
   drawn (create_3d_axis_icon (\<lambda>q. True) ''icon.png'' ''png''
            (default_args\<lparr> guide_to := Some GNonIter \<rparr>) []) =
     Some (axis_artists PyNone (35 / 100) @ [Plot (0, 0, 0) (0, 0, 0) ''#222222'' 1 3 ''-''])"
proof -
  have w1: "create_3d_axis_icon (\<lambda>p. True) ''icon.png'' ''png''
     (default_args\<lparr> guide_to := Some (GSeq [Num 1, NonNum, Num 0]) \<rparr>) [] = Inl BadNumber"
    using unhandled_errors_propagate
      [where a = "default_args\<lparr> guide_to := Some (GSeq [Num 1, NonNum, Num 0]) \<rparr>"
         and gx = "Num 1" and gy = NonNum and gz = "Num 0"
         and writable = "\<lambda>p. True" and p = "''icon.png''" and f = "''png''" and d = "[]"]
    by simp
  have w2: "\<exists>e. create_3d_axis_icon (\<lambda>p. True) ''icon.png'' ''png''
     (default_args\<lparr> parallelogram := Some
        \<lparr> v1 = Some [Num 1, Num 0], v2 = None, fill_color = None, fill_alpha = None, edge_color = None, edge_style = None, edge_lw = None, edge_alpha = None, skip_axis_edges = None \<rparr> \<rparr>) [] = Inl e"
    using unhandled_errors_propagate
      [where a = "default_args\<lparr> parallelogram := Some
        \<lparr> v1 = Some [Num 1, Num 0], v2 = None, fill_color = None, fill_alpha = None, edge_color = None, edge_style = None, edge_lw = None, edge_alpha = None, skip_axis_edges = None \<rparr> \<rparr>"
         and pg = "\<lparr> v1 = Some [Num 1, Num 0], v2 = None, fill_color = None, fill_alpha = None, edge_color = None, edge_style = None, edge_lw = None, edge_alpha = None, skip_axis_edges = None \<rparr>"
         and v = "[Num 1, Num 0]"
         and writable = "\<lambda>p. True" and p = "''icon.png''" and f = "''png''" and d = "[]"]
    by simp
  have w3: "create_3d_axis_icon (\<lambda>p. False) ''icon.png'' ''png'' default_args [] =
     Inl (WriteError ''icon.png'')"
    using unhandled_errors_propagate
      [where a = default_args and sc = "axis_artists PyNone (35 / 100)"
         and writable = "\<lambda>p. False" and p = "''icon.png''" and f = "''png''" and d = "[]"]
    by (simp add: scene_of_default lower_literals)
  have w3s: "create_3d_axis_icon (\<lambda>p. p = ''icon.png'') ''icon.png'' ''svg'' default_args [] =
     Inl (WriteError ''icon.svg'')"
    using unhandled_errors_propagate
      [where a = default_args and sc = "axis_artists PyNone (35 / 100)"
         and writable = "\<lambda>p. p = ''icon.png''" and p = "''icon.png''" and f = "''svg''" and d = "[]"]
    by (simp add: scene_of_default lower_literals)
  have w4: "save_both (\<lambda>p. False) ''icon'' default_args [] = Inl (WriteError ''icon.png'')"
    using w3 unhandled_errors_propagate
      [where a = default_args and b = "''icon''" and e = "WriteError ''icon.png''"
         and writable = "\<lambda>p. False" and d = "[]"]
    by simp
  have w5: "save_both (\<lambda>p. p = ''icon.png'') ''icon'' default_args [] = Inl (WriteError ''icon.svg'')"
    proof -
    have a1: "create_3d_axis_icon (\<lambda>p. p = ''icon.png'') (''icon'' @ ''.png'') ''png'' default_args [] =
        Inr [(''icon.png'', IconFile ''png'' (Some 150) (axis_artists PyNone (35 / 100)))]"
      by (simp add: create_3d_axis_icon_def scene_of_default and_then_def savefig_def
          lower_literals default_fields)
    have a2: "create_3d_axis_icon (\<lambda>p. p = ''icon.png'') (''icon'' @ ''.svg'') ''svg'' default_args
          [(''icon.png'', IconFile ''png'' (Some 150) (axis_artists PyNone (35 / 100)))] =
        Inl (WriteError ''icon.svg'')"
      by (simp add: create_3d_axis_icon_def scene_of_default and_then_def savefig_def
          lower_literals)
    show ?thesis
      using a1 a2 unhandled_errors_propagate
        [where a = default_args and b = "''icon''" and e = "WriteError ''icon.svg''"
           and writable = "\<lambda>p. p = ''icon.png''" and d = "[]"
           and ?d1.0 = "[(''icon.png'', IconFile ''png'' (Some 150) (axis_artists PyNone (35 / 100)))]"]
      by simp
  qed
  have w6: "run_all [create_3d_axis_icon (\<lambda>p. p = ''a.png'') ''a.png'' ''png'' default_args,
            create_3d_axis_icon (\<lambda>p. p = ''a.png'') ''b.png'' ''png'' default_args,
            create_reference_grid (\<lambda>p. p = ''a.png'')] [] = Inl (WriteError ''b.png'')"
    proof -
    have a1: "run_all [create_3d_axis_icon (\<lambda>p. p = ''a.png'') ''a.png'' ''png'' default_args] [] =
        Inr [(''a.png'', IconFile ''png'' (Some 150) (axis_artists PyNone (35 / 100)))]"
      by (simp add: create_3d_axis_icon_def scene_of_default and_then_def savefig_def
          lower_literals default_fields)
    have a2: "create_3d_axis_icon (\<lambda>p. p = ''a.png'') ''b.png'' ''png'' default_args
          [(''a.png'', IconFile ''png'' (Some 150) (axis_artists PyNone (35 / 100)))] =
        Inl (WriteError ''b.png'')"
      by (simp add: create_3d_axis_icon_def scene_of_default and_then_def savefig_def
          lower_literals)
    show ?thesis
      using a1 a2 unhandled_errors_propagate
        [where before = "[create_3d_axis_icon (\<lambda>p. p = ''a.png'') ''a.png'' ''png'' default_args]"
           and step = "create_3d_axis_icon (\<lambda>p. p = ''a.png'') ''b.png'' ''png'' default_args"
           and after = "[create_reference_grid (\<lambda>p. p = ''a.png'')]"
           and e = "WriteError ''b.png''" and d = "[]"
           and ?d1.0 = "[(''a.png'', IconFile ''png'' (Some 150) (axis_artists PyNone (35 / 100)))]"]
      by simp
  qed
  have w7: "main (\<lambda>p. p \<noteq> ''axis_dim_101.svg'') [] = Inl (WriteError ''axis_dim_101.svg'')"
    using unhandled_errors_propagate
      [where writable = "\<lambda>p. p \<noteq> ''axis_dim_101.svg''" and q = "''axis_dim_101.svg''" and d = "[]"]
    by simp
  have w8: "drawn (create_3d_axis_icon (\<lambda>q. True) ''icon.png'' ''png''
            (default_args\<lparr> guide_to := Some GNonIter \<rparr>) []) =
     Some (axis_artists PyNone (35 / 100) @ [Plot (0, 0, 0) (0, 0, 0) ''#222222'' 1 3 ''-''])"
    proof -
    have pp: "pgram_artists (default_args\<lparr> guide_to := Some GNonIter \<rparr>) = Inr []"
      by (rule pgram_none) (simp add: default_fields)
    show ?thesis
      using pp unhandled_errors_propagate
        [where a = "default_args\<lparr> guide_to := Some GNonIter \<rparr>" and g = GNonIter and ps = "[]"
           and p = "''icon.png''" and f = "''png''" and d = "[]"]
      by (simp add: default_fields)
  qed
  from w1 w2 w3 w3s w4 w5 w6 w7 w8 show ?thesis by (intro conjI)
qed

text \<open>
  A guide target of two elements is malformed, and the renderer handles it: the icon is
  written, with a main guide line from the origin to the origin.
\<close>

theorem malformed_guide_target_handled:
  "create_3d_axis_icon (\<lambda>p. True) ''icon.png'' ''png''
     (default_args\<lparr> guide_to := Some (GSeq [Num 1, Num 1]) \<rparr>) [] =
   Inr [(''icon.png'', IconFile ''png'' (Some 150)
          (axis_artists PyNone (35 / 100) @ [Plot (0, 0, 0) (0, 0, 0) ''#222222'' 1 3 ''-'']))]"
  by (simp add: create_3d_axis_icon_def scene_of_def guide_artists_def pgram_artists_def
      default_args_def and_then_def to_float_def aux_segments_def savefig_def lower_literals)

end
